theory Spec2Isabelle
  imports Main "HOL-Library.Word"
begin

section \<open>Runtime values\<close>

text \<open>
  The sources are TypeScript. A JavaScript string is modelled as a \<open>string\<close>, a
  \<open>Buffer\<close> as a list of bytes. Every \<open>throw\<close> of the sources throws a plain
  string; the runtime itself raises a \<open>TypeError\<close> when a property of \<open>undefined\<close> is
  read; the remote client rejects with a payload of its own.
\<close>

type_synonym byte = "8 word"

type_synonym Buffer = "byte list"

datatype error =
    Message string
  | TypeError
  | ServiceError string

text \<open>
  A JavaScript number as the sources produce it: \<open>NaN\<close> or an integer value
  (\<open>parseInt\<close>, \<open>Date.parse\<close>, the literals \<open>0\<close> and \<open>1\<close>). JavaScript rounds an
  integer of more than 53 bits to the nearest double; the comparisons of the sources
  (with \<open>0\<close>, \<open>520\<close> and the bounds of \<open>numberInput\<close>) are against exactly
  representable values, and rounding is monotone, so they are decided as on the integer.
\<close>

datatype number = NaN | Finite int

definition isNaN :: "number \<Rightarrow> bool" where
  "isNaN n = (case n of NaN \<Rightarrow> True | Finite _ \<Rightarrow> False)"

text \<open>\<open>a < b\<close>, \<open>a > b\<close>, \<open>a >= b\<close>, \<open>a <= b\<close> on numbers: false when either side is \<open>NaN\<close>.\<close>

definition num_less :: "number \<Rightarrow> number \<Rightarrow> bool" where
  "num_less a b = (case (a, b) of (Finite x, Finite y) \<Rightarrow> x < y | _ \<Rightarrow> False)"

definition num_le :: "number \<Rightarrow> number \<Rightarrow> bool" where
  "num_le a b = (case (a, b) of (Finite x, Finite y) \<Rightarrow> x \<le> y | _ \<Rightarrow> False)"

text \<open>What \<open>getData\<close> returns: \<open>Buffer | number\<close>.\<close>

datatype data = Buf Buffer | Num number

subsection \<open>\<open>parseInt(str, 10)\<close>\<close>

text \<open>
  Leading white space is skipped, one sign is read, then the longest run of decimal
  digits; what follows the digits is ignored; no digit gives \<open>NaN\<close>. With the radix
  given as 10 no \<open>0x\<close> prefix is recognised. A \<open>char\<close> is a byte, so of the white
  space of JavaScript the characters of the ASCII range are told apart.
\<close>

definition isWhiteSpace :: "char \<Rightarrow> bool" where
  "isWhiteSpace c = (c \<in> set [CHR 0x09, CHR 0x0A, CHR 0x0B, CHR 0x0C, CHR 0x0D, CHR 0x20])"

definition digitVal :: "char \<Rightarrow> nat option" where
  "digitVal c = map_of (zip ''0123456789'' [0, 1, 2, 3, 4, 5, 6, 7, 8, 9]) c"

definition isDigit :: "char \<Rightarrow> bool" where
  "isDigit c = (digitVal c \<noteq> None)"

fun digitsValue :: "nat \<Rightarrow> string \<Rightarrow> nat" where
  "digitsValue acc [] = acc"
| "digitsValue acc (c # cs) =
     (case digitVal c of
        None \<Rightarrow> acc
      | Some d \<Rightarrow> digitsValue (10 * acc + d) cs)"

definition parseInt :: "string \<Rightarrow> number" where
  "parseInt str =
     (let s = dropWhile isWhiteSpace str;
          neg = (case s of c # _ \<Rightarrow> c = CHR ''-'' | [] \<Rightarrow> False);
          body = (case s of c # r \<Rightarrow> if c = CHR ''-'' \<or> c = CHR ''+'' then r else s | [] \<Rightarrow> s)
      in case body of
           [] \<Rightarrow> NaN
         | c # _ \<Rightarrow>
             if \<not> isDigit c then NaN
             else if neg then Finite (- int (digitsValue 0 body))
             else Finite (int (digitsValue 0 body)))"

subsection \<open>Hexadecimal text\<close>

text \<open>\<open>buf.toString('hex')\<close>: two lowercase digits for each byte.\<close>

definition hexDigit :: "nat \<Rightarrow> char" where
  "hexDigit n = ''0123456789abcdef'' ! (n mod 16)"

fun toHex :: "Buffer \<Rightarrow> string" where
  "toHex [] = []"
| "toHex (b # bs) = hexDigit (unat b div 16) # hexDigit (unat b mod 16) # toHex bs"

text \<open>
  \<open>Buffer.from(str, 'hex')\<close> as Node decodes: pairs of hexadecimal digits of either
  case, until the first pair that is not one; a last single character is dropped.
\<close>

definition hexVal :: "char \<Rightarrow> nat option" where
  "hexVal c =
     map_of (zip ''0123456789abcdefABCDEF''
        [0, 1, 2, 3, 4, 5, 6, 7, 8, 9, 10, 11, 12, 13, 14, 15, 10, 11, 12, 13, 14, 15]) c"

fun fromHex :: "string \<Rightarrow> Buffer" where
  "fromHex (a # b # rest) =
     (case hexVal a of
        None \<Rightarrow> []
      | Some x \<Rightarrow>
          (case hexVal b of
             None \<Rightarrow> []
           | Some y \<Rightarrow> word_of_nat (16 * x + y) # fromHex rest))"
| "fromHex _ = []"

text \<open>\<open>validateHex\<close>: the regular expression \<open>/^([a-f0-9][a-f0-9])*$/\<close>.\<close>

definition isLowerHex :: "char \<Rightarrow> bool" where
  "isLowerHex c = (c \<in> set ''abcdef0123456789'')"

fun validateHex :: "string \<Rightarrow> bool" where
  "validateHex [] = True"
| "validateHex [a] = False"
| "validateHex (a # b # rest) = (isLowerHex a \<and> isLowerHex b \<and> validateHex rest)"

section \<open>The input model (inputs/data)\<close>

text \<open>
  Modelled from the spec: the declarations of \<open>inputs/types\<close> (\<open>Input\<close>,
  \<open>InputMap\<close>, \<open>KeyMap\<close>, the hash parameter type) are not among the sources. An
  \<open>Input\<close> has \<open>name\<close>, \<open>type\<close> and \<open>value\<close> and the optional type-specific fields
  \<open>seed\<close>, \<open>hashType\<close>/\<open>hashFunction\<close>, \<open>computedData\<close>, \<open>keyData\<close> and \<open>keyMap\<close>.
  The type tag is the string the switches of the sources compare. A field that the sources
  test against \<open>undefined\<close> is an option. The two fields of \<open>hashType\<close> carry a prefix,
  \<open>hashFunction\<close> being a field of the input itself as well.
\<close>

record ClauseParameterHash =
  hash_inputType :: string
  hash_hashFunction :: string

record KeyData =
  rootXpub :: string
  pubkeyDerivationPath :: "string list"

record Input =
  type :: string
  name :: string
  "value" :: string
  seed :: string
  hashFunction :: string
  hashType :: ClauseParameterHash
  computedData :: "string option"
  keyData :: "KeyData option"
  keyMap :: "(string \<times> KeyData) list option"

text \<open>
  An \<open>InputMap\<close> is an object keyed by input id: an association list read with
  \<open>map_of\<close>. \<open>for (id in inputMap)\<close> visits every key once.
\<close>

type_synonym InputMap = "(string \<times> Input) list"

definition keys :: "InputMap \<Rightarrow> string list" where
  "keys m = remdups (map fst m)"

text \<open>
  What the functions take from outside the files at hand: the constants of
  \<open>contracts/constants\<close> and \<open>inputs/constants\<close>, \<open>Date.parse\<close>, the two digests
  (\<open>crypto\<close>'s SHA-256 on buffers, \<open>js-sha3\<close>'s \<open>sha3_256\<close> that returns hexadecimal
  text) and \<open>strToHexCharCode\<close> of \<open>contracts/util\<close>.
\<close>

record env =
  BTM_ASSET_ID :: string
  MIN_NUMBER :: int
  MAX_NUMBER :: int
  Date_parse :: "string \<Rightarrow> number"
  crypto_sha256 :: "Buffer \<Rightarrow> Buffer"
  sha3_256 :: "Buffer \<Rightarrow> string"
  strToHexCharCode :: "string \<Rightarrow> string"

definition sha256 :: "env \<Rightarrow> Buffer \<Rightarrow> Buffer" where
  "sha256 E buf = crypto_sha256 E buf"

definition getChild :: "Input \<Rightarrow> string" where
  "getChild input = name input @ ''.'' @ value input"

definition isPrimaryInputType :: "string \<Rightarrow> bool" where
  "isPrimaryInputType str =
     (str \<in> set [''hashInput'', ''numberInput'', ''booleanInput'', ''stringInput'',
                 ''publicKeyInput'', ''timeInput'', ''signatureInput'', ''valueInput'',
                 ''programInput'', ''assetInput'', ''amountInput'', ''provideOriginInput''])"

text \<open>
  \<open>validateInput\<close>. A \<open>switch\<close> runs the first clause whose label equals the
  scrutinee, so the clauses are tried in the order of the source, the two clauses labelled
  \<open>generatePublicKeyInput\<close> and the second \<open>signatureInput\<close> label included.
\<close>

definition validateInput :: "env \<Rightarrow> Input \<Rightarrow> error + bool" where
  "validateInput E input =
     (let t = type input; v = value input in
      if t = ''parameterInput'' \<or> t = ''generateHashInput'' then
        Inr (isPrimaryInputType v)
      else if t = ''stringInput'' then
        Inr (v = ''generateStringInput'' \<or> v = ''provideStringInput'')
      else if t = ''hashInput'' then
        Inr (v = ''generateHashInput'' \<or> v = ''provideHashInput'')
      else if t = ''publicKeyInput'' \<or> t = ''programInput'' then
        Inr (v = ''accountInput'' \<or> v = ''provideStringInput'')
      else if t = ''generatePublicKeyInput'' then
        Inr (v = ''generatePrivateKeyInput'' \<or> v = ''providePrivateKeyInput'')
      else if t = ''timeInput'' then
        Inr (v = ''timestampTimeInput'')
      else if t = ''generatePublicKeyInput'' then
        Inr (v = ''accountInput'')
      else if t = ''generateSignatureInput'' then
        Inr (v = ''providePrivateKeyInput'')
      else if t = ''provideStringInput'' then
        Inr (validateHex v)
      else if t = ''provideHashInput'' then
        (if \<not> validateHex v then Inr False
         else if hashFunction input = ''sha256'' \<or> hashFunction input = ''sha3'' then
           Inr (length v = 64)
         else Inl (Message (''unsupported hash function: '' @ hashFunction input)))
      else if t = ''generateStringInput'' then
        (let len = parseInt v in
         if isNaN len \<or> num_less len (Finite 0) \<or> num_less (Finite 520) len then Inr False
         else Inr (length (seed input) = 1040))
      else if t = ''booleanInput'' then
        Inr (v = ''true'' \<or> v = ''false'')
      else if t = ''numberInput'' then
        (let numberValue = parseInt v in
         if isNaN numberValue then Inr False
         else Inr (num_le (Finite (MIN_NUMBER E)) numberValue
                   \<and> num_le numberValue (Finite (MAX_NUMBER E))))
      else if t = ''timestampTimeInput'' then
        Inr (\<not> isNaN (Date_parse E v))
      else if t = ''amountInput'' then
        (let numberValue = parseInt v in
         if isNaN numberValue then Inr False
         else if num_less numberValue (Finite 0) then Inr False
         else Inr True)
      else if t \<in> set [''accountInput'', ''xpubInput'', ''pathInput'', ''assetInput'',
                        ''passwordInput'', ''gasInput'', ''btmUnitInput'', ''signatureInput'',
                        ''assetAliasWithBTMInput'', ''provideOriginInput''] then
        Inr (v \<noteq> '''')
      else if t = ''assetAliasInput'' then
        Inr (v \<noteq> '''' \<and> v \<noteq> BTM_ASSET_ID E)
      else if t = ''valueInput'' then
        Inr True
      else if t = ''choosePublicKeyInput'' then
        Inr (keyMap input \<noteq> None)
      else Inl (Message (''input type not valid '' @ t)))"

text \<open>\<open>getGenerateStringInputValue\<close>; \<open>seed.slice(0, k)\<close> is the first \<open>k\<close> characters.\<close>

definition getGenerateStringInputValue :: "Input \<Rightarrow> error + string" where
  "getGenerateStringInputValue input =
     (let len = parseInt (value input) in
      if isNaN len \<or> num_less len (Finite 0) \<or> num_less (Finite 520) len then
        Inl (Message (''invalid length value for generateStringInput: '' @ value input))
      else
        (case len of
           Finite l \<Rightarrow> Inr (take (nat (l * 2)) (seed input))
         | NaN \<Rightarrow> Inr []))"

text \<open>
  \<open>getData\<close>. The lookup \<open>inputsById[inputId]\<close> of an absent key is \<open>undefined\<close>,
  and \<open>validateInput\<close> then reads \<open>input.type\<close> of it: a \<open>TypeError\<close>. The recursion
  follows \<open>getChild\<close> through the map and need not end (an entry may name itself as its
  child), so the function is partial: \<open>None\<close> is a call that does not return (an
  engine ends such a recursion when its stack is used up).
  \<open>Buffer.from(undefined, 'hex')\<close> is a \<open>TypeError\<close>.
\<close>

partial_function (option) getData :: "env \<Rightarrow> string \<Rightarrow> InputMap \<Rightarrow> (error + data) option" where
  "getData E inputId inputsById =
     (case map_of inputsById inputId of
        None \<Rightarrow> Some (Inl TypeError)
      | Some input \<Rightarrow>
          (case validateInput E input of
             Inl e \<Rightarrow> Some (Inl e)
           | Inr ok \<Rightarrow>
               if \<not> ok then Some (Inl (Message (''invalid input: '' @ name input)))
               else if type input \<in> set [''timeInput'', ''parameterInput'', ''stringInput'',
                                          ''hashInput'', ''signatureInput''] then
                 getData E (getChild input) inputsById
               else if type input = ''programInput'' \<or> type input = ''publicKeyInput'' then
                 (case computedData input of
                    None \<Rightarrow> Some (Inl (Message ''input.computedData unexpectedly undefined''))
                  | Some c \<Rightarrow> Some (Inr (Buf (fromHex c))))
               else if type input \<in> set [''provideStringInput'', ''providePublicKeyInput'',
                                          ''provideHashInput'', ''provideSignatureInput''] then
                 Some (Inr (Buf (fromHex (value input))))
               else if type input = ''assetInput'' then
                 (case computedData input of
                    None \<Rightarrow> Some (Inl TypeError)
                  | Some c \<Rightarrow> Some (Inr (Buf (fromHex c))))
               else if type input = ''numberInput'' \<or> type input = ''amountInput'' then
                 Some (Inr (Num (parseInt (value input))))
               else if type input = ''booleanInput'' then
                 Some (Inr (Num (if value input = ''true'' then Finite 0 else Finite 1)))
               else if type input = ''timestampTimeInput'' then
                 Some (Inr (Num (Date_parse E (value input))))
               else if type input = ''generateStringInput'' then
                 (case getGenerateStringInputValue input of
                    Inl e \<Rightarrow> Some (Inl e)
                  | Inr generated \<Rightarrow> Some (Inr (Buf (fromHex generated))))
               else if type input = ''provideOriginInput'' then
                 Some (Inr (Buf (fromHex (strToHexCharCode E (value input)))))
               else if type input = ''generateHashInput'' then
                 Option.bind (getData E (getChild input) inputsById)
                   (\<lambda>r. case r of
                      Inl e \<Rightarrow> Some (Inl e)
                    | Inr (Num n) \<Rightarrow> Some (Inl (Message ''should not generate hash of a number''))
                    | Inr (Buf childData) \<Rightarrow>
                        if hash_hashFunction (hashType input) = ''sha256'' then
                          Some (Inr (Buf (sha256 E childData)))
                        else if hash_hashFunction (hashType input) = ''sha3'' then
                          Some (Inr (Buf (fromHex (sha3_256 E childData))))
                        else Some (Inl (Message ''unexpected hash function'')))
               else Some (Inl (Message (''should not call getData with '' @ type input)))))"

text \<open>
  \<open>isValidInput\<close> reads \<open>input.type\<close> of the looked-up entry itself; \<open>a && b\<close>
  evaluates \<open>b\<close> only when \<open>a\<close> is true.
\<close>

declare getData.simps [code]

partial_function (option) isValidInput :: "env \<Rightarrow> string \<Rightarrow> InputMap \<Rightarrow> (error + bool) option" where
  "isValidInput E ident inputMap =
     (case map_of inputMap ident of
        None \<Rightarrow> Some (Inl TypeError)
      | Some input \<Rightarrow>
          if type input \<in> set [''parameterInput'', ''stringInput'', ''hashInput'',
                                ''generateHashInput'', ''publicKeyInput'', ''timeInput'',
                                ''signatureInput'', ''programInput'', ''signatureInput''] then
            isValidInput E (getChild input) inputMap
          else if type input = ''valueInput'' then
            Option.bind (isValidInput E (name input @ ''.accountInput'') inputMap) (\<lambda>a.
              case a of Inl e \<Rightarrow> Some (Inl e) | Inr ra \<Rightarrow> if \<not> ra then Some (Inr False) else
            Option.bind (isValidInput E (name input @ ''.assetInput'') inputMap) (\<lambda>b.
              case b of Inl e \<Rightarrow> Some (Inl e) | Inr rb \<Rightarrow> if \<not> rb then Some (Inr False) else
            Option.bind (isValidInput E (name input @ ''.amountInput'') inputMap) (\<lambda>c.
              case c of Inl e \<Rightarrow> Some (Inl e) | Inr rc \<Rightarrow> if \<not> rc then Some (Inr False) else
            Option.bind (isValidInput E (name input @ ''.passwordInput'') inputMap) (\<lambda>d.
              case d of Inl e \<Rightarrow> Some (Inl e) | Inr rd \<Rightarrow> if \<not> rd then Some (Inr False) else
            isValidInput E (name input @ ''.gasInput'') inputMap))))
          else Some (validateInput E input))"

declare isValidInput.simps [code]

section \<open>The derived-state layer (templates/selectors)\<close>

text \<open>
  Modelled from the spec: the declarations of \<open>templates/types\<close>, \<open>app/types\<close> and
  \<open>core/types\<close> are not among the sources. Of the template state the fields the
  selectors below read are kept; a compiled template carries its \<open>name\<close>, its ordered
  \<open>params\<close> (each with a \<open>name\<close>), the name \<open>value\<close> of its value slot and its
  \<open>program\<close>. Where a field name is that of an \<open>Input\<close> field it carries a prefix.
\<close>

record ContractParameter =
  param_name :: string

record CompiledTemplate =
  template_name :: string
  params :: "ContractParameter list"
  template_value :: string
  program :: string

record TemplateState =
  source :: string
  inputMap :: "InputMap option"
  compiled :: "CompiledTemplate option"

record AppState =
  templates :: TemplateState

record SpendFromAccount =
  action_type :: string
  accountId :: string
  assetId :: string
  amount :: number
  password :: string

definition getTemplateState :: "AppState \<Rightarrow> TemplateState" where
  "getTemplateState state = templates state"

definition getSource :: "AppState \<Rightarrow> string" where
  "getSource state = source (getTemplateState state)"

definition getInputMap :: "AppState \<Rightarrow> InputMap option" where
  "getInputMap state = inputMap (getTemplateState state)"

text \<open>\<open>getInputList\<close>: for every key of the map, the entry under it.\<close>

definition inputList_of :: "InputMap \<Rightarrow> Input list" where
  "inputList_of m = List.map_filter (map_of m) (keys m)"

definition getInputList :: "AppState \<Rightarrow> Input list option" where
  "getInputList state =
     (case getInputMap state of
        None \<Rightarrow> None
      | Some m \<Rightarrow> Some (inputList_of m))"

text \<open>\<open>inputMap[id].value\<close>: a \<open>TypeError\<close> when the key is absent.\<close>

definition lookupValue :: "InputMap \<Rightarrow> string \<Rightarrow> error + string" where
  "lookupValue m ident =
     (case map_of m ident of
        None \<Rightarrow> Inl TypeError
      | Some i \<Rightarrow> Inr (value i))"

text \<open>
  The callback of \<open>inputList.forEach\<close> in \<open>getContractValue\<close>: what it pushes onto
  \<open>sources\<close> for one input, if anything. The four lookups come before the test;
  \<open>!accountId\<close> is true of the empty string.
\<close>

definition valueSource :: "InputMap \<Rightarrow> Input \<Rightarrow> error + SpendFromAccount option" where
  "valueSource m input =
     (if type input = ''valueInput'' then
        (case lookupValue m (name input @ ''.accountInput'') of
           Inl e \<Rightarrow> Inl e
         | Inr accountId' \<Rightarrow>
        (case lookupValue m (name input @ ''.assetInput'') of
           Inl e \<Rightarrow> Inl e
         | Inr assetId' \<Rightarrow>
        (case lookupValue m (name input @ ''.amountInput'') of
           Inl e \<Rightarrow> Inl e
         | Inr amountText \<Rightarrow>
        (case lookupValue m (name input @ ''.passwordInput'') of
           Inl e \<Rightarrow> Inl e
         | Inr password' \<Rightarrow>
             (let amount' = parseInt amountText in
              if isNaN amount' \<or> num_less amount' (Finite 0) \<or> accountId' = '''' \<or> assetId' = ''''
              then Inr None
              else Inr (Some \<lparr>action_type = ''spendFromAccount'', accountId = accountId',
                               assetId = assetId', amount = amount', password = password'\<rparr>))))))
      else Inr None)"

fun collectSources :: "InputMap \<Rightarrow> SpendFromAccount list \<Rightarrow> Input list \<Rightarrow> error + SpendFromAccount list" where
  "collectSources m sources [] = Inr sources"
| "collectSources m sources (input # rest) =
     (case valueSource m input of
        Inl e \<Rightarrow> Inl e
      | Inr None \<Rightarrow> collectSources m sources rest
      | Inr (Some s) \<Rightarrow> collectSources m (sources @ [s]) rest)"

text \<open>
  \<open>getContractValue\<close>: \<open>undefined\<close> is \<open>None\<close>. With no input map the input list is
  \<open>undefined\<close> and \<open>inputList.forEach\<close> is a \<open>TypeError\<close>.
\<close>

definition getContractValue :: "AppState \<Rightarrow> error + SpendFromAccount option" where
  "getContractValue state =
     (case (getInputMap state, getInputList state) of
        (Some m, Some inputList) \<Rightarrow>
          (case collectSources m [] inputList of
             Inl e \<Rightarrow> Inl e
           | Inr sources \<Rightarrow>
               (case sources of
                  [s] \<Rightarrow> Inr (Some s)
                | _ \<Rightarrow> Inr None))
      | _ \<Rightarrow> Inl TypeError)"

definition getCompiled :: "AppState \<Rightarrow> CompiledTemplate option" where
  "getCompiled state = compiled (getTemplateState state)"

definition getContractParameters :: "AppState \<Rightarrow> ContractParameter list option" where
  "getContractParameters state =
     (case getCompiled state of
        None \<Rightarrow> None
      | Some c \<Rightarrow> Some (params c))"

definition getParameterIds :: "AppState \<Rightarrow> string list option" where
  "getParameterIds state =
     (case getContractParameters state of
        None \<Rightarrow> None
      | Some ps \<Rightarrow> Some (map (\<lambda>param. ''contractParameters.'' @ param_name param) ps))"

definition getContractValueId :: "AppState \<Rightarrow> string option" where
  "getContractValueId state =
     (case getCompiled state of
        None \<Rightarrow> None
      | Some c \<Rightarrow> Some (''contractValue.'' @ template_value c))"

text \<open>
  \<open>areInputsValid\<close>: \<open>filter\<close> calls \<open>isValidInput\<close> on every id in turn; the ids it
  keeps are those that are not valid.
\<close>

fun filterInvalid :: "env \<Rightarrow> InputMap \<Rightarrow> string list \<Rightarrow> (error + string list) option" where
  "filterInvalid E m [] = Some (Inr [])"
| "filterInvalid E m (ident # ids) =
     Option.bind (isValidInput E ident m) (\<lambda>r.
       case r of
         Inl e \<Rightarrow> Some (Inl e)
       | Inr ok \<Rightarrow>
           Option.bind (filterInvalid E m ids) (\<lambda>rest.
             case rest of
               Inl e \<Rightarrow> Some (Inl e)
             | Inr invalid \<Rightarrow> Some (Inr (if \<not> ok then ident # invalid else invalid))))"

definition areInputsValid :: "env \<Rightarrow> AppState \<Rightarrow> (error + bool) option" where
  "areInputsValid E state =
     (case (getInputMap state, getParameterIds state, getContractValueId state) of
        (Some m, Some parameterIds, Some contractValueId) \<Rightarrow>
          Option.bind (filterInvalid E m (parameterIds @ [contractValueId])) (\<lambda>r.
            case r of
              Inl e \<Rightarrow> Some (Inl e)
            | Inr invalid \<Rightarrow> Some (Inr (length invalid = 0)))
      | _ \<Rightarrow> Some (Inr False))"

text \<open>
  \<open>getContractArgs\<close>. The loop pushes \<open>getData\<close> of each parameter id onto
  \<open>contractArgs\<close>; whatever is thrown inside \<open>try\<close> is logged and replaced by the empty
  list. The result is paired with what was written to the console.
\<close>

fun pushData :: "env \<Rightarrow> InputMap \<Rightarrow> data list \<Rightarrow> string list \<Rightarrow> (error + data list) option" where
  "pushData E m contractArgs [] = Some (Inr contractArgs)"
| "pushData E m contractArgs (ident # ids) =
     Option.bind (getData E ident m) (\<lambda>r.
       case r of
         Inl e \<Rightarrow> Some (Inl e)
       | Inr d \<Rightarrow> pushData E m (contractArgs @ [d]) ids)"

definition getContractArgs ::
    "env \<Rightarrow> AppState \<Rightarrow> InputMap \<Rightarrow> (error list \<times> (error + data list)) option" where
  "getContractArgs E state m =
     (case getParameterIds state of
        None \<Rightarrow>
          Some ([], Inl (Message
            ''parameter IDs should not be undefined when getParameterData is called''))
      | Some parameterIds \<Rightarrow>
          Option.bind (pushData E m [] parameterIds) (\<lambda>r.
            case r of
              Inl e \<Rightarrow> Some ([e], Inr [])
            | Inr contractArgs \<Rightarrow> Some ([], Inr contractArgs)))"

section \<open>Asynchronous resolution (inputs/data)\<close>

text \<open>
  Modelled from the spec: the remote client of \<open>core\<close> is not among the sources. Each
  operation answers a request with a promise, which is rejected (\<open>Inl\<close>) or resolved
  (\<open>Inr\<close>): \<open>listReceiver\<close> with a receiver's control program, \<open>createAccountPubkey\<close>
  with the root key and the list of derived keys with their paths, \<open>compile\<close> with a
  response whose status is \<open>fail\<close> (and whose data is the error) or not (and whose data
  is the compiled template), \<open>createLockingTx\<close> with a transaction id.
\<close>

record PubkeyResponse =
  root_xpub :: string
  pubkey_infos :: "(string \<times> string list) list"

datatype wire = WString string | WInteger number | WBoolean bool

datatype CompileResponse = Fail error | Compiled CompiledTemplate

datatype Action =
    Spend SpendFromAccount
  | ControlWithReceiver string string number
  | GasSpend string int string string

record client =
  listReceiver :: "string \<Rightarrow> error + string"
  createAccountPubkey :: "string \<Rightarrow> error + PubkeyResponse"
  compile :: "string \<Rightarrow> wire list \<Rightarrow> error + CompileResponse"
  createLockingTx :: "Action list \<Rightarrow> string \<Rightarrow> error + string"

text \<open>What a run does that can be observed from outside, in the order it does it.\<close>

datatype lock_message = Error_message error | Success_message string

datatype action =
    UpdateIsCalling bool
  | ShowLockInputMessages bool
  | UpdateLockMessage lock_message
  | SetSource string

datatype event =
    Dispatch action
  | ConsoleLog error
  | CallListReceiver string
  | CallCreateAccountPubkey string
  | CallCompile string "wire list"
  | CallCreateLockingTx "Action list" string

text \<open>
  \<open>getPromiseData\<close>: the requests it sends, and either what it throws at once or the
  promise it returns. \<open>publicKey.pubkey_infos[0].pubkey\<close> of an empty list is a
  \<open>TypeError\<close> inside the continuation, a rejection.
\<close>

definition getPromiseData ::
    "client \<Rightarrow> string \<Rightarrow> InputMap \<Rightarrow> event list \<times> (error + (error + Input))" where
  "getPromiseData C inputId inputsById =
     (case map_of inputsById inputId of
        None \<Rightarrow> ([], Inl TypeError)
      | Some input \<Rightarrow>
          if type input = ''assetInput'' then
            (case lookupValue inputsById (name input @ ''.'' @ value input) of
               Inl e \<Rightarrow> ([], Inl e)
             | Inr inputValue \<Rightarrow> ([], Inr (Inr (input\<lparr>computedData := Some inputValue\<rparr>))))
          else if type input = ''programInput'' then
            (case lookupValue inputsById (name input @ ''.'' @ value input) of
               Inl e \<Rightarrow> ([], Inl e)
             | Inr inputValue \<Rightarrow>
                 if value input = ''provideStringInput'' then
                   ([], Inr (Inr (input\<lparr>computedData := Some inputValue\<rparr>)))
                 else
                   ([CallListReceiver inputValue],
                    Inr (case listReceiver C inputValue of
                           Inl e \<Rightarrow> Inl e
                         | Inr control_program \<Rightarrow>
                             Inr (input\<lparr>computedData := Some control_program\<rparr>))))
          else if type input = ''publicKeyInput'' then
            (case lookupValue inputsById (name input @ ''.'' @ value input) of
               Inl e \<Rightarrow> ([], Inl e)
             | Inr inputValue \<Rightarrow>
                 if value input = ''provideStringInput'' then
                   ([], Inr (Inr (input\<lparr>computedData := Some inputValue\<rparr>)))
                 else
                   ([CallCreateAccountPubkey inputValue],
                    Inr (case createAccountPubkey C inputValue of
                           Inl e \<Rightarrow> Inl e
                         | Inr publicKey \<Rightarrow>
                             (case pubkey_infos publicKey of
                                [] \<Rightarrow> Inl TypeError
                              | (pubkey, path) # _ \<Rightarrow>
                                  Inr (input\<lparr>computedData := Some pubkey,
                                         keyData := Some \<lparr>rootXpub = root_xpub publicKey,
                                                          pubkeyDerivationPath = path\<rparr>\<rparr>)))))
          else ([], Inl (Message (''cannot call getPromiseData with '' @ type input))))"

text \<open>
  \<open>getPromisedInputMap\<close>: the loop over the keys, which sends the requests in key order
  and stops at the first call that throws; then \<open>Promise.props\<close>, resolved with the new
  map when every entry is, rejected otherwise. Which rejection a joined promise reports
  depends on the order the answers arrive in; the model reports the first in key order.
\<close>

fun promiseEntries ::
    "client \<Rightarrow> InputMap \<Rightarrow> string list \<Rightarrow> event list \<times> (error + (string \<times> (error + Input)) list)" where
  "promiseEntries C inputsById [] = ([], Inr [])"
| "promiseEntries C inputsById (ident # ids) =
     (case map_of inputsById ident of
        None \<Rightarrow> ([], Inl TypeError)
      | Some input \<Rightarrow>
          (let (evs, r) =
             (if type input = ''publicKeyInput'' \<or> type input = ''programInput''
                 \<or> type input = ''assetInput''
              then getPromiseData C ident inputsById
              else ([], Inr (Inr input)))
           in case r of
                Inl e \<Rightarrow> (evs, Inl e)
              | Inr promise \<Rightarrow>
                  (case promiseEntries C inputsById ids of
                     (evs', Inl e) \<Rightarrow> (evs @ evs', Inl e)
                   | (evs', Inr rest) \<Rightarrow> (evs @ evs', Inr ((ident, promise) # rest)))))"

fun props :: "(string \<times> (error + Input)) list \<Rightarrow> error + InputMap" where
  "props [] = Inr []"
| "props ((ident, Inl e) # rest) = Inl e"
| "props ((ident, Inr input) # rest) =
     (case props rest of
        Inl e \<Rightarrow> Inl e
      | Inr m \<Rightarrow> Inr ((ident, input) # m))"

definition getPromisedInputMap ::
    "client \<Rightarrow> InputMap \<Rightarrow> event list \<times> (error + (error + InputMap))" where
  "getPromisedInputMap C inputsById =
     (case promiseEntries C inputsById (keys inputsById) of
        (evs, Inl e) \<Rightarrow> (evs, Inl e)
      | (evs, Inr entries) \<Rightarrow> (evs, Inr (props entries)))"

section \<open>The action layer (contracts/actions)\<close>

text \<open>
  The runtime values the coercion of \<open>create\<close> tells apart with \<open>instanceof Buffer\<close>
  and \<open>typeof\<close>.
\<close>

datatype jsvalue =
    VBuffer Buffer
  | VString string
  | VNumber number
  | VBoolean bool
  | VUndefined
  | VNull
  | VObject
  | VFunction
  | VSymbol


fun typeof :: "jsvalue \<Rightarrow> string" where
  "typeof (VBuffer b) = ''object''"
| "typeof (VString s) = ''string''"
| "typeof (VNumber n) = ''number''"
| "typeof (VBoolean b) = ''boolean''"
| "typeof VUndefined = ''undefined''"
| "typeof VNull = ''object''"
| "typeof VObject = ''object''"
| "typeof VFunction = ''function''"
| "typeof VSymbol = ''symbol''"

text \<open>The function mapped over the contract arguments in \<open>create\<close>.\<close>

fun coerceArg :: "jsvalue \<Rightarrow> error + wire" where
  "coerceArg (VBuffer b) = Inr (WString (toHex b))"
| "coerceArg (VString s) = Inr (WString s)"
| "coerceArg (VNumber n) = Inr (WInteger n)"
| "coerceArg (VBoolean b) = Inr (WBoolean b)"
| "coerceArg param = Inl (Message (''unsupported argument type '' @ typeof param))"

text \<open>\<open>Array.map\<close> with a function that may throw: the first throw ends it.\<close>

fun coerceAll :: "jsvalue list \<Rightarrow> error + wire list" where
  "coerceAll [] = Inr []"
| "coerceAll (param # rest) =
     (case coerceArg param of
        Inl e \<Rightarrow> Inl e
      | Inr w \<Rightarrow>
          (case coerceAll rest of
             Inl e \<Rightarrow> Inl e
           | Inr ws \<Rightarrow> Inr (w # ws)))"

fun ofData :: "data \<Rightarrow> jsvalue" where
  "ofData (Buf b) = VBuffer b"
| "ofData (Num n) = VNumber n"

text \<open>
  The continuation of \<open>promisedInputMap\<close>: the arguments, their coercion, the request to
  the compiler. What it returns is the promise \<open>promisedTemplate\<close>.
\<close>

definition promisedTemplate ::
    "env \<Rightarrow> client \<Rightarrow> AppState \<Rightarrow> string \<Rightarrow> InputMap
      \<Rightarrow> (event list \<times> (error + CompileResponse)) option" where
  "promisedTemplate E C state source' m =
     Option.bind (getContractArgs E state m) (\<lambda>(logged, r).
       case r of
         Inl e \<Rightarrow> Some (map ConsoleLog logged, Inl e)
       | Inr contractArgs \<Rightarrow>
           (case coerceAll (map ofData contractArgs) of
              Inl e \<Rightarrow> Some (map ConsoleLog logged, Inl e)
            | Inr args \<Rightarrow>
                Some (map ConsoleLog logged @ [CallCompile source' args],
                      compile C source' args)))"

text \<open>The continuation of \<open>promisedTemplate\<close>: the three actions and their submission.\<close>

definition promisedUtxo ::
    "client \<Rightarrow> SpendFromAccount \<Rightarrow> CompileResponse \<Rightarrow> event list \<times> (error + string)" where
  "promisedUtxo C spendFromAccount resp =
     (case resp of
        Fail d \<Rightarrow> ([], Inl d)
      | Compiled template \<Rightarrow>
          (let actions =
             [Spend spendFromAccount,
              ControlWithReceiver (program template) (assetId spendFromAccount)
                (amount spendFromAccount),
              GasSpend (accountId spendFromAccount) 20000000 ''spendFromAccount''
                ''ffffffffffffffffffffffffffffffffffffffffffffffffffffffffffffffff'']
           in ([CallCreateLockingTx actions (password spendFromAccount)],
               createLockingTx C actions (password spendFromAccount))))"

definition onFulfilled :: "string \<Rightarrow> string \<Rightarrow> event list" where
  "onFulfilled source' transactionId =
     [Dispatch (SetSource source'),
      Dispatch (UpdateIsCalling False),
      Dispatch (UpdateLockMessage (Success_message transactionId)),
      Dispatch (ShowLockInputMessages True)]"

definition onRejected :: "error \<Rightarrow> event list" where
  "onRejected err =
     [ConsoleLog err,
      Dispatch (UpdateIsCalling False),
      Dispatch (UpdateLockMessage (Error_message err)),
      Dispatch (ShowLockInputMessages True)]"

text \<open>The three promises joined by \<open>Promise.all\<close> and the two handlers after it.\<close>

definition settle ::
    "env \<Rightarrow> client \<Rightarrow> AppState \<Rightarrow> string \<Rightarrow> SpendFromAccount \<Rightarrow> error + InputMap
      \<Rightarrow> event list option" where
  "settle E C state source' spendFromAccount promisedInputMap =
     (case promisedInputMap of
        Inl err \<Rightarrow> Some (onRejected err)
      | Inr m \<Rightarrow>
          Option.bind (promisedTemplate E C state source' m) (\<lambda>(evs, t).
            case t of
              Inl err \<Rightarrow> Some (evs @ onRejected err)
            | Inr resp \<Rightarrow>
                (case promisedUtxo C spendFromAccount resp of
                   (evs', Inl err) \<Rightarrow> Some (evs @ evs' @ onRejected err)
                 | (evs', Inr transactionId) \<Rightarrow>
                     Some (evs @ evs' @ onFulfilled source' transactionId))))"

text \<open>
  \<open>create\<close>: the events of a run of the thunk and of the continuations it leaves behind,
  and how the thunk itself ends: it returns (\<open>Inr\<close>) or throws (\<open>Inl\<close>).
\<close>

definition create :: "env \<Rightarrow> client \<Rightarrow> AppState \<Rightarrow> (event list \<times> (error + unit)) option" where
  "create E C state =
     Option.bind (areInputsValid E state) (\<lambda>valid.
       case valid of
         Inl e \<Rightarrow> Some ([Dispatch (UpdateIsCalling True)], Inl e)
       | Inr ok \<Rightarrow>
           if \<not> ok then
             Some ([Dispatch (UpdateIsCalling True),
                    Dispatch (UpdateIsCalling False),
                    Dispatch (ShowLockInputMessages True),
                    Dispatch (UpdateLockMessage (Error_message
                      (Message ''One or more arguments to the contract are invalid.'')))],
                   Inr ())
           else
             (case getInputMap state of
                None \<Rightarrow>
                  Some ([Dispatch (UpdateIsCalling True)],
                        Inl (Message
                          ''create should not have been called when inputMap is undefined''))
              | Some m \<Rightarrow>
                  (case getContractValue state of
                     Inl e \<Rightarrow> Some ([Dispatch (UpdateIsCalling True)], Inl e)
                   | Inr None \<Rightarrow>
                       Some ([Dispatch (UpdateIsCalling True)],
                             Inl (Message ''spendFromAccount should not be undefined here''))
                   | Inr (Some spendFromAccount) \<Rightarrow>
                       (case getPromisedInputMap C m of
                          (evs, Inl e) \<Rightarrow> Some (Dispatch (UpdateIsCalling True) # evs, Inl e)
                        | (evs, Inr promisedInputMap) \<Rightarrow>
                            Option.bind
                              (settle E C state (getSource state) spendFromAccount
                                 promisedInputMap)
                              (\<lambda>later. Some (Dispatch (UpdateIsCalling True) # evs @ later,
                                              Inr ()))))))"

text \<open>The requests a run sends to the compiler and to the transaction service.\<close>

fun isSubmission :: "event \<Rightarrow> bool" where
  "isSubmission (CallCompile s args) = True"
| "isSubmission (CallCreateLockingTx actions p) = True"
| "isSubmission ev = False"

section \<open>Notions of the specification\<close>

text \<open>
  A \<open>valueInput\<close> entry qualifies as the funding source when the values of its
  \<open>accountInput\<close> and \<open>assetInput\<close> children are not empty and the value of its
  \<open>amountInput\<close> child parses to an integer that is not negative.
\<close>

definition qualifies :: "InputMap \<Rightarrow> Input \<Rightarrow> bool" where
  "qualifies m input =
     (type input = ''valueInput''
      \<and> (case map_of m (name input @ ''.accountInput'') of
            None \<Rightarrow> False
          | Some c \<Rightarrow> value c \<noteq> '''')
      \<and> (case map_of m (name input @ ''.assetInput'') of
            None \<Rightarrow> False
          | Some c \<Rightarrow> value c \<noteq> '''')
      \<and> (case map_of m (name input @ ''.amountInput'') of
            None \<Rightarrow> False
          | Some c \<Rightarrow> (case parseInt (value c) of NaN \<Rightarrow> False | Finite n \<Rightarrow> 0 \<le> n)))"

definition childValue :: "InputMap \<Rightarrow> Input \<Rightarrow> string \<Rightarrow> string" where
  "childValue m input suffix =
     (case map_of m (name input @ suffix) of
        None \<Rightarrow> ''''
      | Some c \<Rightarrow> value c)"

text \<open>The funding source the specification derives from a \<open>valueInput\<close> entry.\<close>

definition spendFromAccountOf :: "InputMap \<Rightarrow> Input \<Rightarrow> SpendFromAccount" where
  "spendFromAccountOf m input =
     \<lparr>action_type = ''spendFromAccount'',
      accountId = childValue m input ''.accountInput'',
      assetId = childValue m input ''.assetInput'',
      amount = parseInt (childValue m input ''.amountInput''),
      password = childValue m input ''.passwordInput''\<rparr>"

text \<open>The four children \<open>getContractValue\<close> looks up are keys of the map.\<close>

definition hasChildren :: "InputMap \<Rightarrow> Input \<Rightarrow> bool" where
  "hasChildren m input =
     (\<forall>suffix \<in> set [''.accountInput'', ''.assetInput'', ''.amountInput'', ''.passwordInput''].
        map_of m (name input @ suffix) \<noteq> None)"

definition childrenPresent :: "InputMap \<Rightarrow> bool" where
  "childrenPresent m =
     (\<forall>input \<in> set (inputList_of m). type input = ''valueInput'' \<longrightarrow> hasChildren m input)"

text \<open>
  The resolution of an id by \<open>getData\<close> comes to an id that is not a key of the map:
  the id itself is absent, or its entry passes \<open>validateInput\<close>, has a type that
  \<open>getData\<close> resolves through \<open>getChild\<close>, and the resolution of the child comes to an
  absent id.
\<close>

inductive getDataMissing :: "env \<Rightarrow> InputMap \<Rightarrow> string \<Rightarrow> bool" for E m where
  absent: "map_of m ident = None \<Longrightarrow> getDataMissing E m ident"
| child: "map_of m ident = Some input \<Longrightarrow> validateInput E input = Inr True \<Longrightarrow>
          type input \<in> set [''timeInput'', ''parameterInput'', ''stringInput'', ''hashInput'',
                             ''signatureInput'', ''generateHashInput''] \<Longrightarrow>
          getDataMissing E m (getChild input) \<Longrightarrow> getDataMissing E m ident"

code_pred getDataMissing .

text \<open>
  The same for \<open>isValidInput\<close>, which follows \<open>getChild\<close> without validating, and
  which at a \<open>valueInput\<close> goes through the five fixed children for as long as they are
  valid.
\<close>

inductive isValidMissing :: "env \<Rightarrow> InputMap \<Rightarrow> string \<Rightarrow> bool" for E m where
  absent: "map_of m ident = None \<Longrightarrow> isValidMissing E m ident"
| child: "map_of m ident = Some input \<Longrightarrow>
          type input \<in> set [''parameterInput'', ''stringInput'', ''hashInput'',
                             ''generateHashInput'', ''publicKeyInput'', ''timeInput'',
                             ''signatureInput'', ''programInput''] \<Longrightarrow>
          isValidMissing E m (getChild input) \<Longrightarrow> isValidMissing E m ident"
| account: "map_of m ident = Some input \<Longrightarrow> type input = ''valueInput'' \<Longrightarrow>
          isValidMissing E m (name input @ ''.accountInput'') \<Longrightarrow> isValidMissing E m ident"
| asset: "map_of m ident = Some input \<Longrightarrow> type input = ''valueInput'' \<Longrightarrow>
          isValidInput E (name input @ ''.accountInput'') m = Some (Inr True) \<Longrightarrow>
          isValidMissing E m (name input @ ''.assetInput'') \<Longrightarrow> isValidMissing E m ident"
| amount: "map_of m ident = Some input \<Longrightarrow> type input = ''valueInput'' \<Longrightarrow>
          isValidInput E (name input @ ''.accountInput'') m = Some (Inr True) \<Longrightarrow>
          isValidInput E (name input @ ''.assetInput'') m = Some (Inr True) \<Longrightarrow>
          isValidMissing E m (name input @ ''.amountInput'') \<Longrightarrow> isValidMissing E m ident"
| password: "map_of m ident = Some input \<Longrightarrow> type input = ''valueInput'' \<Longrightarrow>
          isValidInput E (name input @ ''.accountInput'') m = Some (Inr True) \<Longrightarrow>
          isValidInput E (name input @ ''.assetInput'') m = Some (Inr True) \<Longrightarrow>
          isValidInput E (name input @ ''.amountInput'') m = Some (Inr True) \<Longrightarrow>
          isValidMissing E m (name input @ ''.passwordInput'') \<Longrightarrow> isValidMissing E m ident"
| gas: "map_of m ident = Some input \<Longrightarrow> type input = ''valueInput'' \<Longrightarrow>
          isValidInput E (name input @ ''.accountInput'') m = Some (Inr True) \<Longrightarrow>
          isValidInput E (name input @ ''.assetInput'') m = Some (Inr True) \<Longrightarrow>
          isValidInput E (name input @ ''.amountInput'') m = Some (Inr True) \<Longrightarrow>
          isValidInput E (name input @ ''.passwordInput'') m = Some (Inr True) \<Longrightarrow>
          isValidMissing E m (name input @ ''.gasInput'') \<Longrightarrow> isValidMissing E m ident"

code_pred isValidMissing .

section \<open>Example inputs\<close>

text \<open>An input with the three common fields, the type-specific ones empty.\<close>

definition input_of :: "string \<Rightarrow> string \<Rightarrow> string \<Rightarrow> Input" where
  "input_of t n v =
     \<lparr>type = t, name = n, value = v, seed = '''', hashFunction = '''',
      hashType = \<lparr>hash_inputType = '''', hash_hashFunction = ''''\<rparr>,
      computedData = None, keyData = None, keyMap = None\<rparr>"

text \<open>
  An environment to run the functions in. The two digests are stand-ins (SHA-256 as
  the identity, SHA3-256 as the hexadecimal text of its argument): the examples need some
  function in their place, not the digest itself.
\<close>

definition example_env :: env where
  "example_env =
     \<lparr>BTM_ASSET_ID = ''ffffffffffffffffffffffffffffffffffffffffffffffffffffffffffffffff'',
      MIN_NUMBER = - 9223372036854775808, MAX_NUMBER = 9223372036854775807,
      Date_parse = (\<lambda>s. NaN), crypto_sha256 = (\<lambda>b. b), sha3_256 = toHex,
      strToHexCharCode = (\<lambda>s. s)\<rparr>"

definition example_client :: client where
  "example_client =
     \<lparr>listReceiver = (\<lambda>s. Inr ''00''),
      createAccountPubkey = (\<lambda>s. Inr \<lparr>root_xpub = ''xpub'', pubkey_infos = [(''ab'', [])]\<rparr>),
      compile = (\<lambda>s args. Inl (ServiceError ''offline'')),
      createLockingTx = (\<lambda>actions p. Inl (ServiceError ''offline''))\<rparr>"

definition state_of :: "InputMap option \<Rightarrow> CompiledTemplate option \<Rightarrow> AppState" where
  "state_of m c = \<lparr>templates = \<lparr>source = ''contract'', inputMap = m, compiled = c\<rparr>\<rparr>"

text \<open>
  One \<open>valueInput\<close> with the account \<open>acc1\<close>, the asset \<open>asset1\<close>, the amount \<open>500\<close> and a
  given password; no \<open>gasInput\<close> child.
\<close>

definition value_inputs :: "string \<Rightarrow> InputMap" where
  "value_inputs pw =
     [(''contractValue.v'', input_of ''valueInput'' ''contractValue.v'' ''''),
      (''contractValue.v.accountInput'',
         input_of ''accountInput'' ''contractValue.v.accountInput'' ''acc1''),
      (''contractValue.v.assetInput'',
         input_of ''assetInput'' ''contractValue.v.assetInput'' ''asset1''),
      (''contractValue.v.amountInput'',
         input_of ''amountInput'' ''contractValue.v.amountInput'' ''500''),
      (''contractValue.v.passwordInput'',
         input_of ''passwordInput'' ''contractValue.v.passwordInput'' pw)]"

text \<open>A second \<open>valueInput\<close>, with the account \<open>acc2\<close> and the amount \<open>7\<close>.\<close>

definition second_value_inputs :: InputMap where
  "second_value_inputs =
     [(''contractValue.w'', input_of ''valueInput'' ''contractValue.w'' ''''),
      (''contractValue.w.accountInput'',
         input_of ''accountInput'' ''contractValue.w.accountInput'' ''acc2''),
      (''contractValue.w.assetInput'',
         input_of ''assetInput'' ''contractValue.w.assetInput'' ''asset1''),
      (''contractValue.w.amountInput'',
         input_of ''amountInput'' ''contractValue.w.amountInput'' ''7''),
      (''contractValue.w.passwordInput'',
         input_of ''passwordInput'' ''contractValue.w.passwordInput'' ''pw'')]"

text \<open>
  One \<open>valueInput\<close> with the account \<open>acc1\<close>, the asset \<open>asset1\<close> and the amount
  \<open>500\<close>; no \<open>passwordInput\<close> child.
\<close>

definition no_password_inputs :: InputMap where
  "no_password_inputs =
     [(''contractValue.v'', input_of ''valueInput'' ''contractValue.v'' ''''),
      (''contractValue.v.accountInput'',
         input_of ''accountInput'' ''contractValue.v.accountInput'' ''acc1''),
      (''contractValue.v.assetInput'',
         input_of ''assetInput'' ''contractValue.v.assetInput'' ''asset1''),
      (''contractValue.v.amountInput'',
         input_of ''amountInput'' ''contractValue.v.amountInput'' ''500'')]"

text \<open>A \<open>valueInput\<close> on its own, none of its children in the map.\<close>

definition orphan_inputs :: InputMap where
  "orphan_inputs = [(''contractValue.v'', input_of ''valueInput'' ''contractValue.v'' '''')]"

text \<open>A boolean contract parameter \<open>b\<close> under its \<open>parameterInput\<close>.\<close>

definition boolean_inputs :: "string \<Rightarrow> InputMap" where
  "boolean_inputs v =
     [(''contractParameters.b'',
         input_of ''parameterInput'' ''contractParameters.b'' ''booleanInput''),
      (''contractParameters.b.booleanInput'',
         input_of ''booleanInput'' ''contractParameters.b.booleanInput'' v)]"

text \<open>
  A \<open>generateHashInput\<close> with a given hash function over a child of a given type and
  value.
\<close>

definition hash_inputs :: "string \<Rightarrow> string \<Rightarrow> string \<Rightarrow> InputMap" where
  "hash_inputs hf t v =
     [(''h.generateHashInput'',
         (input_of ''generateHashInput'' ''h.generateHashInput'' t)
           \<lparr>hashType := \<lparr>hash_inputType = ''String'', hash_hashFunction = hf\<rparr>\<rparr>),
      (''h.generateHashInput.'' @ t, input_of t (''h.generateHashInput.'' @ t) v)]"

text \<open>A string parameter whose chosen \<open>generateStringInput\<close> child is not in the map.\<close>

definition dangling_inputs :: InputMap where
  "dangling_inputs =
     [(''contractParameters.s'',
         input_of ''parameterInput'' ''contractParameters.s'' ''stringInput''),
      (''contractParameters.s.stringInput'',
         input_of ''stringInput'' ''contractParameters.s.stringInput'' ''generateStringInput'')]"

definition template_of :: "string list \<Rightarrow> CompiledTemplate" where
  "template_of ps =
     \<lparr>template_name = ''t'', params = map (\<lambda>n. \<lparr>param_name = n\<rparr>) ps,
      template_value = ''v'', program = ''''\<rparr>"

section \<open>Lemmas on the encodings\<close>

lemma below_16: "(k::nat) < 16 \<Longrightarrow> k \<in> set [0, 1, 2, 3, 4, 5, 6, 7, 8, 9, 10, 11, 12, 13, 14, 15]"
  by (simp only: set_simps insert_iff empty_iff) arith

lemma hexVal_hexDigit: "hexVal (hexDigit n) = Some (n mod 16)"
proof -
  have "n mod 16 < 16" by simp
  then have "n mod 16 \<in> set [0, 1, 2, 3, 4, 5, 6, 7, 8, 9, 10, 11, 12, 13, 14, 15]"
    by (rule below_16)
  moreover have "\<forall>k \<in> set [0, 1, 2, 3, 4, 5, 6, 7, 8, 9, 10, 11, 12, 13, 14, 15 :: nat].
      hexVal (''0123456789abcdef'' ! k) = Some k"
    by (simp add: hexVal_def)
  ultimately show ?thesis unfolding hexDigit_def by blast
qed


lemma byte_of_digits:
  "word_of_nat (16 * (unat (a::byte) div 16 mod 16) + unat a mod 16 mod 16) = a"
proof -
  have "unat a < 256" using unsigned_less [of a, where ?'a = nat] by simp
  then have "unat a div 16 < 16" by simp
  then have "16 * (unat a div 16 mod 16) + unat a mod 16 mod 16 = unat a" by simp
  then show ?thesis by simp
qed

text \<open>Decoding the hexadecimal text of a buffer gives the buffer back.\<close>

lemma fromHex_toHex: "fromHex (toHex bs) = bs"
  using byte_of_digits
  by (induction bs) (simp_all add: hexVal_hexDigit del: of_nat_add of_nat_mult)



lemma parseInt_4: "parseInt ''4'' = Finite 4"
  by (simp add: parseInt_def isWhiteSpace_def isDigit_def digitVal_def)

lemma parseInt_7: "parseInt ''7'' = Finite 7"
  by (simp add: parseInt_def isWhiteSpace_def isDigit_def digitVal_def)

lemma parseInt_500: "parseInt ''500'' = Finite 500"
  by (simp add: parseInt_def isWhiteSpace_def isDigit_def digitVal_def)

lemma parseInt_521: "parseInt ''521'' = Finite 521"
  by (simp add: parseInt_def isWhiteSpace_def isDigit_def digitVal_def)

section \<open>The create action\<close>

text \<open>
  C1. In every application state in which \<open>areInputsValid\<close> is false, \<open>create\<close>
  dispatches \<open>updateIsCalling(false)\<close>, \<open>showLockInputMessages(true)\<close> and the message
  \<open>One or more arguments to the contract are invalid.\<close> (after the
  \<open>updateIsCalling(true)\<close> every run starts with) and returns; the run sends no request to
  the compiler and submits no transaction.
\<close>

theorem C1_create_refuses_invalid_inputs:
  assumes "areInputsValid E state = Some (Inr False)"
  shows "\<exists>evs. create E C state = Some (evs, Inr ())
           \<and> evs = [Dispatch (UpdateIsCalling True),
                    Dispatch (UpdateIsCalling False),
                    Dispatch (ShowLockInputMessages True),
                    Dispatch (UpdateLockMessage (Error_message
                      (Message ''One or more arguments to the contract are invalid.'')))]
           \<and> filter isSubmission evs = []"
  using assms by (simp add: create_def)

text \<open>
  The state of the example has the value slot \<open>v\<close> with an empty password, which
  \<open>validateInput\<close> rejects.
\<close>

theorem C1_create_refuses_invalid_inputs_witness:
  "areInputsValid example_env (state_of (Some (value_inputs '''')) (Some (template_of [])))
     = Some (Inr False)
   \<and> (\<exists>evs. create example_env example_client
               (state_of (Some (value_inputs '''')) (Some (template_of [])))
             = Some (evs, Inr ())
         \<and> evs = [Dispatch (UpdateIsCalling True),
                  Dispatch (UpdateIsCalling False),
                  Dispatch (ShowLockInputMessages True),
                  Dispatch (UpdateLockMessage (Error_message
                    (Message ''One or more arguments to the contract are invalid.'')))]
         \<and> filter isSubmission evs = [])"
proof -
  have h: "areInputsValid example_env
             (state_of (Some (value_inputs '''')) (Some (template_of []))) = Some (Inr False)"
    by (simp add: areInputsValid_def state_of_def template_of_def value_inputs_def
          input_of_def getInputMap_def getTemplateState_def getParameterIds_def
          getContractParameters_def getCompiled_def getContractValueId_def
          isValidInput.simps validateInput_def Let_def)
  from C1_create_refuses_invalid_inputs [OF h, of example_client] h show ?thesis
    by blast
qed

section \<open>The funding source\<close>

lemma valueSource_present:
  assumes "type input = ''valueInput'' \<longrightarrow> hasChildren m input"
  shows "valueSource m input =
           Inr (if qualifies m input then Some (spendFromAccountOf m input) else None)"
proof (cases "type input = ''valueInput''")
  case False
  then show ?thesis by (simp add: valueSource_def qualifies_def)
next
  case True
  with assms have "hasChildren m input" by simp
  then obtain a b c d where
    "map_of m (name input @ ''.accountInput'') = Some a"
    "map_of m (name input @ ''.assetInput'') = Some b"
    "map_of m (name input @ ''.amountInput'') = Some c"
    "map_of m (name input @ ''.passwordInput'') = Some d"
    by (auto simp: hasChildren_def)
  with True show ?thesis
    by (cases "parseInt (value c)")
       (auto simp: valueSource_def qualifies_def spendFromAccountOf_def childValue_def
          lookupValue_def isNaN_def num_less_def Let_def)
qed

lemma collectSources_present:
  assumes "\<forall>input \<in> set xs. type input = ''valueInput'' \<longrightarrow> hasChildren m input"
  shows "collectSources m acc xs
           = Inr (acc @ map (spendFromAccountOf m) (filter (qualifies m) xs))"
  using assms
proof (induction xs arbitrary: acc)
  case Nil
  then show ?case by simp
next
  case (Cons x xs)
  then have "valueSource m x
               = Inr (if qualifies m x then Some (spendFromAccountOf m x) else None)"
    by (intro valueSource_present) simp
  with Cons show ?case by simp
qed

lemma getContractValue_sources:
  assumes "getInputMap state = Some m"
    and "collectSources m [] (inputList_of m) = Inr (map (spendFromAccountOf m) qs)"
  shows "getContractValue state =
           Inr (case qs of [input] \<Rightarrow> Some (spendFromAccountOf m input) | _ \<Rightarrow> None)"
  using assms
  by (simp add: getContractValue_def getInputList_def split: list.split)

lemma childrenPresent_value_inputs: "childrenPresent (value_inputs pw)"
  by (simp add: childrenPresent_def hasChildren_def inputList_of_def keys_def
        value_inputs_def input_of_def)

lemma qualifying_value_inputs:
  "filter (qualifies (value_inputs pw)) (inputList_of (value_inputs pw))
     = [input_of ''valueInput'' ''contractValue.v'' '''']"
  by (simp add: qualifies_def inputList_of_def keys_def value_inputs_def input_of_def parseInt_500)

text \<open>
  C2, as amended. For every input map in which each \<open>valueInput\<close> entry has its
  \<open>accountInput\<close>, \<open>assetInput\<close>, \<open>amountInput\<close> and \<open>passwordInput\<close> children,
  \<open>getContractValue\<close> returns a \<open>SpendFromAccount\<close> if and only if exactly one
  \<open>valueInput\<close> entry qualifies, and then the one built from that entry (type
  \<open>spendFromAccount\<close>, the account, the asset and the password copied from the children,
  the amount the base-10 parse of the \<open>amountInput\<close> child); when none or more than one
  qualifies it returns \<open>undefined\<close>.
\<close>

theorem C2_getContractValue_exactly_one:
  assumes "getInputMap state = Some m" and "childrenPresent m"
  shows "getContractValue state =
           Inr (case filter (qualifies m) (inputList_of m) of
                  [input] \<Rightarrow> Some (spendFromAccountOf m input)
                | _ \<Rightarrow> None)
         \<and> ((\<exists>s. getContractValue state = Inr (Some s))
              \<longleftrightarrow> length (filter (qualifies m) (inputList_of m)) = 1)"
proof -
  have "collectSources m [] (inputList_of m) =
          Inr (map (spendFromAccountOf m) (filter (qualifies m) (inputList_of m)))"
    using assms(2) collectSources_present [of "inputList_of m" m "[]"]
    by (simp add: childrenPresent_def)
  with assms(1) have r: "getContractValue state =
           Inr (case filter (qualifies m) (inputList_of m) of
                  [input] \<Rightarrow> Some (spendFromAccountOf m input)
                | _ \<Rightarrow> None)"
    by (rule getContractValue_sources)
  have "(\<exists>s. getContractValue state = Inr (Some s))
          \<longleftrightarrow> length (filter (qualifies m) (inputList_of m)) = 1"
    unfolding r by (simp split: list.split)
  with r show ?thesis by simp
qed

lemma childrenPresent_two_value_inputs:
  "childrenPresent (value_inputs pw @ second_value_inputs)"
  by (simp add: childrenPresent_def hasChildren_def inputList_of_def keys_def
        value_inputs_def second_value_inputs_def input_of_def)

lemma qualifying_two_value_inputs:
  "filter (qualifies (value_inputs pw @ second_value_inputs))
     (inputList_of (value_inputs pw @ second_value_inputs))
     = [input_of ''valueInput'' ''contractValue.v'' '''',
        input_of ''valueInput'' ''contractValue.w'' '''']"
  by (simp add: qualifies_def inputList_of_def keys_def value_inputs_def
        second_value_inputs_def input_of_def parseInt_500 parseInt_7)

text \<open>
  The examples of the specification: one \<open>valueInput\<close> with \<open>acc1\<close>, \<open>asset1\<close>, \<open>500\<close>
  and \<open>pw\<close> gives a funding source of amount 500; two qualifying ones give none, and
  so does the empty map.
\<close>

theorem C2_getContractValue_exactly_one_witness:
  "getInputMap (state_of (Some (value_inputs ''pw'')) None) = Some (value_inputs ''pw'')
   \<and> childrenPresent (value_inputs ''pw'')
   \<and> length (filter (qualifies (value_inputs ''pw'')) (inputList_of (value_inputs ''pw''))) = 1
   \<and> getContractValue (state_of (Some (value_inputs ''pw'')) None) =
        Inr (Some \<lparr>action_type = ''spendFromAccount'', accountId = ''acc1'',
                    assetId = ''asset1'', amount = Finite 500, password = ''pw''\<rparr>)
   \<and> childrenPresent (value_inputs ''pw'' @ second_value_inputs)
   \<and> length (filter (qualifies (value_inputs ''pw'' @ second_value_inputs))
        (inputList_of (value_inputs ''pw'' @ second_value_inputs))) = 2
   \<and> getContractValue (state_of (Some (value_inputs ''pw'' @ second_value_inputs)) None)
       = Inr None
   \<and> childrenPresent []
   \<and> getContractValue (state_of (Some []) None) = Inr None"
proof -
  have g: "getInputMap (state_of (Some m) None) = Some m" for m
    by (simp add: getInputMap_def getTemplateState_def state_of_def)
  have e: "childrenPresent []"
    by (simp add: childrenPresent_def inputList_of_def keys_def)
  have e': "inputList_of [] = []"
    by (simp add: inputList_of_def keys_def)
  note two = C2_getContractValue_exactly_one [OF g childrenPresent_two_value_inputs, of "''pw''"]
  note none = C2_getContractValue_exactly_one [OF g e]
  have h1: "getInputMap (state_of (Some (value_inputs ''pw'')) None)
              = Some (value_inputs ''pw'')"
    by (simp add: getInputMap_def getTemplateState_def state_of_def)
  have h2: "childrenPresent (value_inputs ''pw'')"
    by (rule childrenPresent_value_inputs)
  have v: "spendFromAccountOf (value_inputs ''pw'')
             (input_of ''valueInput'' ''contractValue.v'' '''') =
           \<lparr>action_type = ''spendFromAccount'', accountId = ''acc1'',
             assetId = ''asset1'', amount = Finite 500, password = ''pw''\<rparr>"
    by (simp add: spendFromAccountOf_def childValue_def value_inputs_def input_of_def
          parseInt_500)
  from C2_getContractValue_exactly_one [OF h1 h2] h1 h2 v two none e
    childrenPresent_two_value_inputs [of "''pw''"]
  show ?thesis
    by (simp add: qualifying_value_inputs qualifying_two_value_inputs e')
qed

text \<open>
  The claim as it was stated, for every input map, fails where a \<open>valueInput\<close> has no
  children in the map: no entry qualifies, and the lookup of the absent
  \<open>accountInput\<close> child throws instead of \<open>undefined\<close> being returned.
\<close>

theorem C2_getContractValue_counterexample:
  "filter (qualifies orphan_inputs) (inputList_of orphan_inputs) = []
   \<and> getContractValue (state_of (Some orphan_inputs) None) = Inl TypeError"
  by (simp add: qualifies_def inputList_of_def keys_def orphan_inputs_def input_of_def getContractValue_def getInputMap_def getInputList_def
        getTemplateState_def state_of_def valueSource_def lookupValue_def)

lemma map_of_filter_other:
  "k \<noteq> g \<Longrightarrow> map_of (filter (\<lambda>(k', i). k' \<noteq> g) m) k = map_of m k"
  by (induction m) auto

text \<open>
  C9, as amended. \<open>getContractValue\<close> decides whether a \<open>valueInput\<close> qualifies
  without looking at the value of its \<open>passwordInput\<close> child or at its \<open>gasInput\<close>
  child: for every \<open>valueInput\<close> whose \<open>passwordInput\<close> child is a key of the map,
  whenever the values of the \<open>accountInput\<close> and \<open>assetInput\<close> children are not empty
  and the \<open>amountInput\<close> child parses to an integer that is not negative, the callback
  pushes a \<open>SpendFromAccount\<close> that carries the password as it is, the empty one too;
  taking the \<open>gasInput\<close> child out of the map changes nothing; and when this is the
  only \<open>valueInput\<close> of the map, that \<open>SpendFromAccount\<close> is what
  \<open>getContractValue\<close> returns.
\<close>

theorem C9_password_and_gas_not_inspected:
  assumes "type input = ''valueInput''"
    and "map_of m (name input @ ''.accountInput'') = Some a" and "value a \<noteq> ''''"
    and "map_of m (name input @ ''.assetInput'') = Some b" and "value b \<noteq> ''''"
    and "map_of m (name input @ ''.amountInput'') = Some c"
    and "parseInt (value c) = Finite n" and "0 \<le> n"
    and "map_of m (name input @ ''.passwordInput'') = Some p"
  shows "valueSource m input =
           Inr (Some \<lparr>action_type = ''spendFromAccount'', accountId = value a,
                       assetId = value b, amount = Finite n, password = value p\<rparr>)
         \<and> valueSource (filter (\<lambda>(k, i). k \<noteq> name input @ ''.gasInput'') m) input
             = valueSource m input
         \<and> (getInputMap state = Some m
              \<and> filter (\<lambda>i. type i = ''valueInput'') (inputList_of m) = [input]
            \<longrightarrow> getContractValue state =
                  Inr (Some \<lparr>action_type = ''spendFromAccount'', accountId = value a,
                              assetId = value b, amount = Finite n, password = value p\<rparr>))"
proof -
  let ?s = "\<lparr>action_type = ''spendFromAccount'', accountId = value a,
              assetId = value b, amount = Finite n, password = value p\<rparr>"
  have q: "qualifies m input"
    using assms by (simp add: qualifies_def)
  have s: "spendFromAccountOf m input = ?s"
    using assms by (simp add: spendFromAccountOf_def childValue_def)
  have c: "hasChildren m input"
    using assms by (simp add: hasChildren_def)
  have 1: "valueSource m input = Inr (Some ?s)"
    using valueSource_present [of input m] q s c by simp
  have l: "lookupValue (filter (\<lambda>(k, i). k \<noteq> name input @ ''.gasInput'') m)
               (name input @ suffix) = lookupValue m (name input @ suffix)"
    if "suffix \<noteq> ''.gasInput''" for suffix
    using that by (simp add: lookupValue_def map_of_filter_other)
  have 2: "valueSource (filter (\<lambda>(k, i). k \<noteq> name input @ ''.gasInput'') m) input
             = valueSource m input"
    unfolding valueSource_def
      l [of "''.accountInput''", simplified] l [of "''.assetInput''", simplified]
      l [of "''.amountInput''", simplified] l [of "''.passwordInput''", simplified]
    by (rule refl)
  have 3: "getContractValue state = Inr (Some ?s)"
    if m: "getInputMap state = Some m"
      and only: "filter (\<lambda>i. type i = ''valueInput'') (inputList_of m) = [input]"
  proof -
    have "set (filter (\<lambda>i. type i = ''valueInput'') (inputList_of m)) = {input}"
      using only by simp
    then have "\<forall>i \<in> set (inputList_of m). type i = ''valueInput'' \<longrightarrow> hasChildren m i"
      using c by auto
    then have "collectSources m [] (inputList_of m) =
        Inr (map (spendFromAccountOf m) (filter (qualifies m) (inputList_of m)))"
      using collectSources_present [of "inputList_of m" m "[]"] by simp
    moreover have "(type i = ''valueInput'' \<and> qualifies m i) = qualifies m i" for i
      by (auto simp: qualifies_def)
    then have "filter (qualifies m) (inputList_of m)
        = filter (qualifies m) (filter (\<lambda>i. type i = ''valueInput'') (inputList_of m))"
      by simp
    then have "filter (qualifies m) (inputList_of m) = [input]"
      using only q by simp
    ultimately have "collectSources m [] (inputList_of m)
        = Inr (map (spendFromAccountOf m) [input])"
      by simp
    with m have "getContractValue state =
        Inr (case [input] of [i] \<Rightarrow> Some (spendFromAccountOf m i) | _ \<Rightarrow> None)"
      by (rule getContractValue_sources)
    with s show ?thesis by simp
  qed
  from 1 2 3 show ?thesis by blast
qed

text \<open>
  The example has an empty password and no \<open>gasInput\<close> child at all.
\<close>

theorem C9_password_and_gas_not_inspected_witness:
  "map_of (value_inputs '''') ''contractValue.v.gasInput'' = None
   \<and> map_of (value_inputs '''') ''contractValue.v.passwordInput''
       = Some (input_of ''passwordInput'' ''contractValue.v.passwordInput'' '''')
   \<and> getContractValue (state_of (Some (value_inputs '''')) None) =
        Inr (Some \<lparr>action_type = ''spendFromAccount'', accountId = ''acc1'',
                    assetId = ''asset1'', amount = Finite 500, password = ''''\<rparr>)"
proof -
  let ?i = "input_of ''valueInput'' ''contractValue.v'' ''''"
  have t: "type ?i = ''valueInput''"
    by (simp add: input_of_def)
  have a: "map_of (value_inputs '''') (name ?i @ ''.accountInput'')
             = Some (input_of ''accountInput'' ''contractValue.v.accountInput'' ''acc1'')"
    by (simp add: value_inputs_def input_of_def)
  have b: "map_of (value_inputs '''') (name ?i @ ''.assetInput'')
             = Some (input_of ''assetInput'' ''contractValue.v.assetInput'' ''asset1'')"
    by (simp add: value_inputs_def input_of_def)
  have c: "map_of (value_inputs '''') (name ?i @ ''.amountInput'')
             = Some (input_of ''amountInput'' ''contractValue.v.amountInput'' ''500'')"
    by (simp add: value_inputs_def input_of_def)
  have p: "map_of (value_inputs '''') (name ?i @ ''.passwordInput'')
             = Some (input_of ''passwordInput'' ''contractValue.v.passwordInput'' '''')"
    by (simp add: value_inputs_def input_of_def)
  have av: "value (input_of ''accountInput'' ''contractValue.v.accountInput'' ''acc1'') \<noteq> ''''"
    by (simp add: input_of_def)
  have bv: "value (input_of ''assetInput'' ''contractValue.v.assetInput'' ''asset1'') \<noteq> ''''"
    by (simp add: input_of_def)
  have cv: "parseInt (value (input_of ''amountInput'' ''contractValue.v.amountInput'' ''500''))
              = Finite 500"
    by (simp add: input_of_def parseInt_500)
  have n: "(0::int) \<le> 500"
    by simp
  have m: "getInputMap (state_of (Some (value_inputs '''')) None) = Some (value_inputs '''')"
    by (simp add: getInputMap_def getTemplateState_def state_of_def)
  have only: "filter (\<lambda>i. type i = ''valueInput'') (inputList_of (value_inputs '''')) = [?i]"
    by (simp add: inputList_of_def keys_def value_inputs_def input_of_def)
  have g: "map_of (value_inputs '''') ''contractValue.v.gasInput'' = None"
    by (simp add: value_inputs_def)
  from C9_password_and_gas_not_inspected
         [OF t a av b bv c cv n p, of "state_of (Some (value_inputs '''')) None"]
       m only g p
  show ?thesis by (simp add: input_of_def)
qed

text \<open>
  The claim as it was stated, for every \<open>valueInput\<close> that meets the three conditions
  on the account, the asset and the amount, fails where the \<open>passwordInput\<close> child is
  not in the map: the value of that child is read before the test, so the lookup throws
  and no \<open>SpendFromAccount\<close> is produced.
\<close>

theorem C9_password_absent_counterexample:
  "qualifies no_password_inputs (input_of ''valueInput'' ''contractValue.v'' '''')
   \<and> map_of no_password_inputs ''contractValue.v.passwordInput'' = None
   \<and> valueSource no_password_inputs (input_of ''valueInput'' ''contractValue.v'' '''')
       = Inl TypeError
   \<and> getContractValue (state_of (Some no_password_inputs) None) = Inl TypeError"
  by (simp add: qualifies_def no_password_inputs_def input_of_def parseInt_500
        inputList_of_def keys_def getContractValue_def getInputMap_def getInputList_def
        getTemplateState_def state_of_def valueSource_def lookupValue_def)

section \<open>Resolution of input data\<close>

text \<open>
  C3. For every input of type \<open>booleanInput\<close> that passes \<open>validateInput\<close> (its value
  is then \<open>true\<close> or \<open>false\<close>), \<open>getData\<close> returns the number 0 when the value is
  \<open>true\<close> and the number 1 otherwise: \<open>false\<close> maps to 1.
\<close>

theorem C3_getData_boolean_polarity:
  assumes "map_of m ident = Some input"
    and "type input = ''booleanInput''"
    and "validateInput E input = Inr True"
  shows "(value input = ''true'' \<or> value input = ''false'')
         \<and> getData E ident m
             = Some (Inr (Num (if value input = ''true'' then Finite 0 else Finite 1)))
         \<and> (value input = ''false'' \<longrightarrow> getData E ident m = Some (Inr (Num (Finite 1))))"
proof -
  have v: "value input = ''true'' \<or> value input = ''false''"
    using assms(2,3) by (simp add: validateInput_def Let_def)
  have "getData E ident m
          = Some (Inr (Num (if value input = ''true'' then Finite 0 else Finite 1)))"
    using assms by (subst getData.simps) simp
  with v show ?thesis by auto
qed

theorem C3_getData_boolean_polarity_witness:
  "map_of (boolean_inputs ''false'') ''contractParameters.b.booleanInput''
     = Some (input_of ''booleanInput'' ''contractParameters.b.booleanInput'' ''false'')
   \<and> validateInput example_env
        (input_of ''booleanInput'' ''contractParameters.b.booleanInput'' ''false'') = Inr True
   \<and> getData example_env ''contractParameters.b.booleanInput'' (boolean_inputs ''false'')
       = Some (Inr (Num (Finite 1)))"
proof -
  let ?i = "input_of ''booleanInput'' ''contractParameters.b.booleanInput'' ''false''"
  have h1: "map_of (boolean_inputs ''false'') ''contractParameters.b.booleanInput'' = Some ?i"
    by (simp add: boolean_inputs_def)
  have h2: "type ?i = ''booleanInput''"
    by (simp add: input_of_def)
  have h3: "validateInput example_env ?i = Inr True"
    by (simp add: validateInput_def input_of_def Let_def)
  have v: "value ?i = ''false''"
    by (simp add: input_of_def)
  from C3_getData_boolean_polarity [OF h1 h2 h3] h1 h3 v show ?thesis
    by simp
qed

text \<open>
  C4. For a \<open>generateHashInput\<close> (one that \<open>getData\<close> resolves, so one that passes
  \<open>validateInput\<close>) whose child resolves to the bytes \<open>b\<close>: \<open>getData\<close> returns the
  SHA-256 digest of \<open>b\<close> when \<open>hashType.hashFunction\<close> is \<open>sha256\<close>; when it is \<open>sha3\<close>
  it returns the bytes of the digest \<open>d\<close> that \<open>sha3_256\<close> renders as hexadecimal text, as
  many as the digest has; for any other name it fails with \<open>unexpected hash function\<close>.
  When the child resolves to a number it fails. The digests themselves are the
  libraries'.
\<close>

theorem C4_getData_generateHash:
  assumes "map_of m ident = Some input"
    and "type input = ''generateHashInput''"
    and "validateInput E input = Inr True"
    and "getData E (getChild input) m = Some (Inr childData)"
  shows "(\<forall>b. childData = Buf b \<and> hash_hashFunction (hashType input) = ''sha256''
            \<longrightarrow> getData E ident m = Some (Inr (Buf (sha256 E b)))
                \<and> sha256 E b = crypto_sha256 E b)
         \<and> (\<forall>b d. childData = Buf b \<and> hash_hashFunction (hashType input) = ''sha3''
                \<and> sha3_256 E b = toHex d
            \<longrightarrow> getData E ident m = Some (Inr (Buf d)))
         \<and> (\<forall>b. childData = Buf b \<and> hash_hashFunction (hashType input) \<noteq> ''sha256''
                \<and> hash_hashFunction (hashType input) \<noteq> ''sha3''
            \<longrightarrow> getData E ident m = Some (Inl (Message ''unexpected hash function'')))
         \<and> (\<forall>n. childData = Num n
            \<longrightarrow> getData E ident m
                  = Some (Inl (Message ''should not generate hash of a number'')))"
proof (intro conjI allI impI)
  fix b
  assume "childData = Buf b \<and> hash_hashFunction (hashType input) = ''sha256''"
  with assms show "getData E ident m = Some (Inr (Buf (sha256 E b)))"
    by (subst getData.simps) simp
next
  fix b
  show "sha256 E b = crypto_sha256 E b"
    by (simp add: sha256_def)
next
  fix b d
  assume "childData = Buf b \<and> hash_hashFunction (hashType input) = ''sha3''
            \<and> sha3_256 E b = toHex d"
  with assms show "getData E ident m = Some (Inr (Buf d))"
    by (subst getData.simps) (simp add: fromHex_toHex)
next
  fix b
  assume "childData = Buf b \<and> hash_hashFunction (hashType input) \<noteq> ''sha256''
            \<and> hash_hashFunction (hashType input) \<noteq> ''sha3''"
  with assms show "getData E ident m = Some (Inl (Message ''unexpected hash function''))"
    by (subst getData.simps) simp
next
  fix n
  assume "childData = Num n"
  with assms show "getData E ident m
      = Some (Inl (Message ''should not generate hash of a number''))"
    by (subst getData.simps) simp
qed

lemma hash_inputs_parent:
  "map_of (hash_inputs hf t v) ''h.generateHashInput''
     = Some ((input_of ''generateHashInput'' ''h.generateHashInput'' t)
               \<lparr>hashType := \<lparr>hash_inputType = ''String'', hash_hashFunction = hf\<rparr>\<rparr>)"
  by (simp add: hash_inputs_def)

lemma hash_inputs_origin:
  "getData example_env ''h.generateHashInput.provideOriginInput''
     (hash_inputs hf ''provideOriginInput'' ''0a0b'') = Some (Inr (Buf [0x0a, 0x0b]))"
  by (subst getData.simps)
     (simp add: hash_inputs_def input_of_def validateInput_def Let_def example_env_def
        hexVal_def)

lemma hash_inputs_number:
  "getData example_env ''h.generateHashInput.numberInput''
     (hash_inputs hf ''numberInput'' ''4'') = Some (Inr (Num (Finite 4)))"
  by (subst getData.simps)
     (simp add: hash_inputs_def input_of_def validateInput_def Let_def example_env_def
        parseInt_4 isNaN_def num_le_def)

text \<open>
  The examples hash the two bytes \<open>0a 0b\<close> of a \<open>provideOriginInput\<close> child under
  \<open>sha256\<close>, \<open>sha3\<close> and \<open>md5\<close>, and a \<open>numberInput\<close> child under \<open>sha256\<close>, with the
  stand-ins of the example environment for the digests.
\<close>

theorem C4_getData_generateHash_witness:
  "getData example_env ''h.generateHashInput''
      (hash_inputs ''sha256'' ''provideOriginInput'' ''0a0b'')
     = Some (Inr (Buf (sha256 example_env [0x0a, 0x0b])))
   \<and> getData example_env ''h.generateHashInput''
      (hash_inputs ''sha3'' ''provideOriginInput'' ''0a0b'')
     = Some (Inr (Buf [0x0a, 0x0b]))
   \<and> getData example_env ''h.generateHashInput''
      (hash_inputs ''md5'' ''provideOriginInput'' ''0a0b'')
     = Some (Inl (Message ''unexpected hash function''))
   \<and> getData example_env ''h.generateHashInput''
      (hash_inputs ''sha256'' ''numberInput'' ''4'')
     = Some (Inl (Message ''should not generate hash of a number''))"
proof -
  let ?p = "\<lambda>hf t. (input_of ''generateHashInput'' ''h.generateHashInput'' t)
               \<lparr>hashType := \<lparr>hash_inputType = ''String'', hash_hashFunction = hf\<rparr>\<rparr>"
  have t: "type (?p hf t) = ''generateHashInput''" for hf t
    by (simp add: input_of_def)
  have v1: "validateInput example_env (?p hf ''provideOriginInput'') = Inr True" for hf
    by (simp add: validateInput_def input_of_def Let_def isPrimaryInputType_def)
  have v2: "validateInput example_env (?p hf ''numberInput'') = Inr True" for hf
    by (simp add: validateInput_def input_of_def Let_def isPrimaryInputType_def)
  have c1: "getData example_env (getChild (?p hf ''provideOriginInput''))
              (hash_inputs hf ''provideOriginInput'' ''0a0b'') = Some (Inr (Buf [0x0a, 0x0b]))"
    for hf
    using hash_inputs_origin [of hf] by (simp add: getChild_def input_of_def)
  have c2: "getData example_env (getChild (?p hf ''numberInput''))
              (hash_inputs hf ''numberInput'' ''4'') = Some (Inr (Num (Finite 4)))"
    for hf
    using hash_inputs_number [of hf] by (simp add: getChild_def input_of_def)
  have f: "hash_hashFunction (hashType (?p hf t)) = hf" for hf t
    by (simp add: input_of_def)
  have d: "sha3_256 example_env [0x0a, 0x0b] = toHex [0x0a, 0x0b]"
    by (simp add: example_env_def)
  from C4_getData_generateHash [OF hash_inputs_parent t v1 c1, of "''sha256''"]
       C4_getData_generateHash [OF hash_inputs_parent t v1 c1, of "''sha3''"]
       C4_getData_generateHash [OF hash_inputs_parent t v1 c1, of "''md5''"]
       C4_getData_generateHash [OF hash_inputs_parent t v2 c2, of "''sha256''"]
       f d
  show ?thesis by simp
qed

section \<open>Coercion of the contract arguments\<close>





section \<open>Generated strings\<close>

text \<open>
  C6. \<open>getGenerateStringInputValue\<close> returns the first \<open>length * 2\<close> characters of the
  seed, where \<open>length\<close> is \<open>parseInt(value, 10)\<close>, and throws whenever \<open>length\<close> is
  \<open>NaN\<close>, negative or greater than 520; with the value \<open>4\<close> and a seed of 1040
  characters it returns the first 8 characters of the seed, and with the value \<open>521\<close> it
  throws.
\<close>

theorem C6_getGenerateStringInputValue:
  "(\<forall>l. parseInt (value input) = Finite l \<and> 0 \<le> l \<and> l \<le> 520
       \<longrightarrow> getGenerateStringInputValue input = Inr (take (nat (l * 2)) (seed input)))
   \<and> (parseInt (value input) = NaN
        \<or> (\<exists>l. parseInt (value input) = Finite l \<and> (l < 0 \<or> 520 < l))
       \<longrightarrow> getGenerateStringInputValue input
             = Inl (Message (''invalid length value for generateStringInput: '' @ value input)))
   \<and> (value input = ''4'' \<and> length (seed input) = 1040
       \<longrightarrow> getGenerateStringInputValue input = Inr (take 8 (seed input))
           \<and> length (take 8 (seed input)) = 8)
   \<and> (value input = ''521''
       \<longrightarrow> getGenerateStringInputValue input
             = Inl (Message ''invalid length value for generateStringInput: 521''))"
proof (intro conjI allI impI)
  fix l
  assume "parseInt (value input) = Finite l \<and> 0 \<le> l \<and> l \<le> 520"
  then show "getGenerateStringInputValue input = Inr (take (nat (l * 2)) (seed input))"
    by (simp add: getGenerateStringInputValue_def isNaN_def num_less_def Let_def)
next
  assume "parseInt (value input) = NaN
            \<or> (\<exists>l. parseInt (value input) = Finite l \<and> (l < 0 \<or> 520 < l))"
  then show "getGenerateStringInputValue input
      = Inl (Message (''invalid length value for generateStringInput: '' @ value input))"
    by (auto simp: getGenerateStringInputValue_def isNaN_def num_less_def Let_def)
next
  assume "value input = ''4'' \<and> length (seed input) = 1040"
  then show "getGenerateStringInputValue input = Inr (take 8 (seed input))"
    by (simp add: getGenerateStringInputValue_def isNaN_def num_less_def Let_def parseInt_4)
next
  assume "value input = ''4'' \<and> length (seed input) = 1040"
  then show "length (take 8 (seed input)) = 8"
    by simp
next
  assume "value input = ''521''"
  then show "getGenerateStringInputValue input
      = Inl (Message ''invalid length value for generateStringInput: 521'')"
    by (simp add: getGenerateStringInputValue_def isNaN_def num_less_def Let_def parseInt_521)
qed

text \<open>A seed of 1040 characters that begins with \<open>01234567\<close>.\<close>

theorem C6_getGenerateStringInputValue_witness:
  "length (seed ((input_of ''generateStringInput'' ''s'' ''4'')
                   \<lparr>seed := ''01234567'' @ replicate 1032 (CHR ''a'')\<rparr>)) = 1040
   \<and> getGenerateStringInputValue
        ((input_of ''generateStringInput'' ''s'' ''4'')
           \<lparr>seed := ''01234567'' @ replicate 1032 (CHR ''a'')\<rparr>) = Inr ''01234567''
   \<and> getGenerateStringInputValue (input_of ''generateStringInput'' ''s'' ''521'')
       = Inl (Message ''invalid length value for generateStringInput: 521'')
   \<and> parseInt ''x'' = NaN
   \<and> getGenerateStringInputValue (input_of ''generateStringInput'' ''s'' ''x'')
       = Inl (Message ''invalid length value for generateStringInput: x'')"
proof -
  let ?i = "(input_of ''generateStringInput'' ''s'' ''4'')
              \<lparr>seed := ''01234567'' @ replicate 1032 (CHR ''a'')\<rparr>"
  have h: "value ?i = ''4'' \<and> length (seed ?i) = 1040"
    by (simp add: input_of_def)
  have s: "take 8 (seed ?i) = ''01234567''"
    by (simp add: input_of_def)
  have h2: "value (input_of ''generateStringInput'' ''s'' ''521'') = ''521''"
    by (simp add: input_of_def)
  have n: "parseInt ''x'' = NaN"
    by (simp add: parseInt_def isWhiteSpace_def isDigit_def digitVal_def)
  have h3: "parseInt (value (input_of ''generateStringInput'' ''s'' ''x'')) = NaN"
    using n by (simp add: input_of_def)
  have v3: "value (input_of ''generateStringInput'' ''s'' ''x'') = ''x''"
    by (simp add: input_of_def)
  from C6_getGenerateStringInputValue [of ?i]
       C6_getGenerateStringInputValue [of "input_of ''generateStringInput'' ''s'' ''521''"]
       C6_getGenerateStringInputValue [of "input_of ''generateStringInput'' ''s'' ''x''"]
       h s h2 n h3 v3
  show ?thesis by simp
qed

section \<open>Validation of a single input\<close>

text \<open>
  C7, as amended. For every input of type \<open>generatePublicKeyInput\<close>, the clause of
  \<open>validateInput\<close> that runs is the first one declared with that label: the result is
  true if and only if the value is \<open>generatePrivateKeyInput\<close> or
  \<open>providePrivateKeyInput\<close>. The second clause with the label is never reached.
\<close>

theorem C7_validateInput_generatePublicKey:
  assumes "type input = ''generatePublicKeyInput''"
  shows "validateInput E input
           = Inr (value input = ''generatePrivateKeyInput''
                  \<or> value input = ''providePrivateKeyInput'')"
  using assms by (simp add: validateInput_def Let_def)

theorem C7_validateInput_generatePublicKey_witness:
  "type (input_of ''generatePublicKeyInput'' ''k'' ''providePrivateKeyInput'')
     = ''generatePublicKeyInput''
   \<and> validateInput example_env
        (input_of ''generatePublicKeyInput'' ''k'' ''providePrivateKeyInput'') = Inr True"
proof -
  have h: "type (input_of ''generatePublicKeyInput'' ''k'' ''providePrivateKeyInput'')
             = ''generatePublicKeyInput''"
    by (simp add: input_of_def)
  from C7_validateInput_generatePublicKey [OF h, of example_env] h show ?thesis
    by (simp add: input_of_def)
qed

text \<open>
  The claim as it was stated has the later clause run, which accepts the value
  \<open>accountInput\<close> and nothing else; the code rejects that value.
\<close>

theorem C7_validateInput_counterexample:
  "type (input_of ''generatePublicKeyInput'' ''k'' ''accountInput'') = ''generatePublicKeyInput''
   \<and> value (input_of ''generatePublicKeyInput'' ''k'' ''accountInput'') = ''accountInput''
   \<and> validateInput example_env (input_of ''generatePublicKeyInput'' ''k'' ''accountInput'')
       = Inr False"
  by (simp add: validateInput_def input_of_def Let_def)

section \<open>The contract arguments\<close>

lemma pushData_returns:
  "map (\<lambda>ident. getData E ident m) ids = map (\<lambda>d. Some (Inr d)) ds
     \<Longrightarrow> pushData E m acc ids = Some (Inr (acc @ ds))"
proof (induction ids arbitrary: acc ds)
  case Nil
  then show ?case by simp
next
  case (Cons i ids)
  then obtain d ds' where "ds = d # ds'" by (cases ds) auto
  with Cons show ?case by simp
qed

lemma pushData_throws:
  assumes "\<forall>ident \<in> set ids. getData E ident m \<noteq> None"
    and "\<exists>ident \<in> set ids. \<exists>e. getData E ident m = Some (Inl e)"
  shows "\<exists>e. pushData E m acc ids = Some (Inl e)"
  using assms
proof (induction ids arbitrary: acc)
  case Nil
  then show ?case by simp
next
  case (Cons i ids)
  from Cons.prems(1) obtain r where r: "getData E i m = Some r" by auto
  show ?case
  proof (cases r)
    case (Inl e)
    with r show ?thesis by simp
  next
    case (Inr d)
    with r Cons.prems have "\<forall>ident \<in> set ids. getData E ident m \<noteq> None"
      and "\<exists>ident \<in> set ids. \<exists>e. getData E ident m = Some (Inl e)"
      by auto
    then have "\<exists>e. pushData E m (acc @ [d]) ids = Some (Inl e)"
      by (rule Cons.IH)
    with r Inr show ?thesis by simp
  qed
qed

text \<open>
  C8. \<open>getContractArgs\<close> throws when the list of parameter ids is \<open>undefined\<close>.
  Otherwise, when the resolution of some parameter id by \<open>getData\<close> throws (each
  resolution coming to an end), it logs what was thrown and returns the empty list
  instead of throwing; and when every resolution returns, it returns the results of
  \<open>getData\<close> in the order of the parameters and logs nothing.
\<close>

theorem C8_getContractArgs:
  "(getParameterIds state = None
      \<longrightarrow> getContractArgs E state m
            = Some ([], Inl (Message
                ''parameter IDs should not be undefined when getParameterData is called'')))
   \<and> (getParameterIds state = Some ids
        \<and> (\<forall>ident \<in> set ids. getData E ident m \<noteq> None)
        \<and> (\<exists>ident \<in> set ids. \<exists>e. getData E ident m = Some (Inl e))
      \<longrightarrow> (\<exists>e. getContractArgs E state m = Some ([e], Inr [])))
   \<and> (getParameterIds state = Some ids
        \<and> map (\<lambda>ident. getData E ident m) ids = map (\<lambda>d. Some (Inr d)) ds
      \<longrightarrow> getContractArgs E state m = Some ([], Inr ds))"
proof (intro conjI impI)
  assume "getParameterIds state = None"
  then show "getContractArgs E state m
      = Some ([], Inl (Message
          ''parameter IDs should not be undefined when getParameterData is called''))"
    by (simp add: getContractArgs_def)
next
  assume a: "getParameterIds state = Some ids
        \<and> (\<forall>ident \<in> set ids. getData E ident m \<noteq> None)
        \<and> (\<exists>ident \<in> set ids. \<exists>e. getData E ident m = Some (Inl e))"
  then obtain e where "pushData E m [] ids = Some (Inl e)"
    using pushData_throws [of ids E m "[]"] by blast
  with a show "\<exists>e. getContractArgs E state m = Some ([e], Inr [])"
    by (simp add: getContractArgs_def)
next
  assume a: "getParameterIds state = Some ids
        \<and> map (\<lambda>ident. getData E ident m) ids = map (\<lambda>d. Some (Inr d)) ds"
  then have "pushData E m [] ids = Some (Inr ([] @ ds))"
    by (intro pushData_returns) simp
  with a show "getContractArgs E state m = Some ([], Inr ds)"
    by (simp add: getContractArgs_def)
qed

lemma boolean_inputs_data:
  "getData example_env ''contractParameters.b'' (boolean_inputs ''false'' @ rest)
     = Some (Inr (Num (Finite 1)))"
  by (simp add: getData.simps boolean_inputs_def input_of_def validateInput_def Let_def
        isPrimaryInputType_def getChild_def)

lemma dangling_inputs_data:
  "getData example_env ''contractParameters.s'' (boolean_inputs ''false'' @ dangling_inputs)
     = Some (Inl TypeError)"
  by (simp add: getData.simps boolean_inputs_def dangling_inputs_def input_of_def
        validateInput_def Let_def isPrimaryInputType_def getChild_def)

lemma parameter_ids:
  "getParameterIds (state_of im (Some (template_of ps)))
     = Some (map (\<lambda>n. ''contractParameters.'' @ n) ps)"
  by (simp add: getParameterIds_def getContractParameters_def getCompiled_def
        getTemplateState_def state_of_def template_of_def comp_def)

text \<open>
  The examples: no compiled template; the parameters \<open>b\<close> and \<open>s\<close>, the second with a
  child that is not in the map; the parameter \<open>b\<close> alone.
\<close>

theorem C8_getContractArgs_witness:
  "getParameterIds (state_of None None) = None
   \<and> getContractArgs example_env (state_of None None) []
       = Some ([], Inl (Message
           ''parameter IDs should not be undefined when getParameterData is called''))
   \<and> getData example_env ''contractParameters.s'' (boolean_inputs ''false'' @ dangling_inputs)
       = Some (Inl TypeError)
   \<and> (\<exists>e. getContractArgs example_env (state_of None (Some (template_of [''b'', ''s''])))
             (boolean_inputs ''false'' @ dangling_inputs) = Some ([e], Inr []))
   \<and> getContractArgs example_env (state_of None (Some (template_of [''b''])))
        (boolean_inputs ''false'' @ dangling_inputs) = Some ([], Inr [Num (Finite 1)])"
proof -
  let ?m = "boolean_inputs ''false'' @ dangling_inputs"
  have h1: "getParameterIds (state_of None None) = None"
    by (simp add: getParameterIds_def getContractParameters_def getCompiled_def
          getTemplateState_def state_of_def)
  have h2: "getParameterIds (state_of None (Some (template_of [''b'', ''s''])))
              = Some [''contractParameters.b'', ''contractParameters.s'']"
    by (simp add: parameter_ids)
  have h3: "getParameterIds (state_of None (Some (template_of [''b''])))
              = Some [''contractParameters.b'']"
    by (simp add: parameter_ids)
  have t: "\<forall>ident \<in> set [''contractParameters.b'', ''contractParameters.s''].
             getData example_env ident ?m \<noteq> None"
    by (simp add: boolean_inputs_data dangling_inputs_data)
  have f: "\<exists>ident \<in> set [''contractParameters.b'', ''contractParameters.s''].
             \<exists>e. getData example_env ident ?m = Some (Inl e)"
    by (simp add: dangling_inputs_data)
  have r: "map (\<lambda>ident. getData example_env ident ?m) [''contractParameters.b'']
             = map (\<lambda>d. Some (Inr d)) [Num (Finite 1)]"
    by (simp add: boolean_inputs_data)
  from C8_getContractArgs [where state = "state_of None None" and E = example_env
          and m = "[]"]
       C8_getContractArgs [where state = "state_of None (Some (template_of [''b'', ''s'']))"
          and E = example_env and m = ?m
          and ids = "[''contractParameters.b'', ''contractParameters.s'']"]
       C8_getContractArgs [where state = "state_of None (Some (template_of [''b'']))"
          and E = example_env and m = ?m and ids = "[''contractParameters.b'']"
          and ds = "[Num (Finite 1)]"]
       h1 h2 h3 t f r dangling_inputs_data
  show ?thesis by blast
qed

section \<open>Ids that are not in the map\<close>

lemma getData_missing:
  "getDataMissing E m ident \<Longrightarrow> getData E ident m = Some (Inl TypeError)"
proof (induction rule: getDataMissing.induct)
  case (absent ident)
  then show ?case by (subst getData.simps) simp
next
  case (child ident input)
  from child.hyps(3) consider "type input = ''generateHashInput''"
    | "type input \<in> set [''timeInput'', ''parameterInput'', ''stringInput'', ''hashInput'',
                          ''signatureInput'']"
    by auto
  then show ?case
  proof cases
    case 1
    with child.hyps(1,2) child.IH show ?thesis by (subst getData.simps) simp
  next
    case 2
    with child.hyps(1,2) child.IH show ?thesis by (subst getData.simps) simp
  qed
qed

lemma isValidInput_missing:
  "isValidMissing E m ident \<Longrightarrow> isValidInput E ident m = Some (Inl TypeError)"
proof (induction rule: isValidMissing.induct)
  case (absent ident)
  then show ?case by (subst isValidInput.simps) simp
next
  case (child ident input)
  then show ?case by (subst isValidInput.simps) auto
next
  case (account ident input)
  then show ?case by (subst isValidInput.simps) simp
next
  case (asset ident input)
  then show ?case by (subst isValidInput.simps) simp
next
  case (amount ident input)
  then show ?case by (subst isValidInput.simps) simp
next
  case (password ident input)
  then show ?case by (subst isValidInput.simps) simp
next
  case (gas ident input)
  then show ?case by (subst isValidInput.simps) simp
qed

text \<open>
  C10. \<open>getData\<close> and \<open>isValidInput\<close> are partial in the id: when the id given, or a
  child id formed as \<open>name + "." + value\<close> in the course of the recursive resolution, is
  not a key of the input map, the call fails with the runtime's \<open>TypeError\<close> (a field is
  read of the \<open>undefined\<close> the lookup gave); it returns neither \<open>false\<close> nor a thrown
  message of the sources. For \<open>isValidInput\<close> the same holds of a fixed child of a
  \<open>valueInput\<close> that the conjunction comes to.
\<close>

theorem C10_absent_id_is_TypeError:
  "(getDataMissing E m ident \<longrightarrow> getData E ident m = Some (Inl TypeError))
   \<and> (isValidMissing E m ident
        \<longrightarrow> isValidInput E ident m = Some (Inl TypeError)
            \<and> isValidInput E ident m \<noteq> Some (Inr False))
   \<and> (map_of m ident = None
        \<longrightarrow> getData E ident m = Some (Inl TypeError)
            \<and> isValidInput E ident m = Some (Inl TypeError))"
  using getData_missing [of E m ident] isValidInput_missing [of E m ident]
  by (auto intro: getDataMissing.absent isValidMissing.absent)

text \<open>
  The example: the parameter \<open>s\<close> chooses \<open>stringInput\<close>, which chooses
  \<open>generateStringInput\<close>, which is not in the map.
\<close>

theorem C10_absent_id_is_TypeError_witness:
  "map_of dangling_inputs ''contractParameters.s.stringInput.generateStringInput'' = None
   \<and> getDataMissing example_env dangling_inputs ''contractParameters.s''
   \<and> isValidMissing example_env dangling_inputs ''contractParameters.s''
   \<and> isValidMissing example_env orphan_inputs ''contractValue.v''
   \<and> isValidInput example_env ''contractValue.v'' orphan_inputs = Some (Inl TypeError)
   \<and> getData example_env ''contractParameters.s'' dangling_inputs = Some (Inl TypeError)
   \<and> isValidInput example_env ''contractParameters.s'' dangling_inputs = Some (Inl TypeError)"
proof -
  let ?p = "input_of ''parameterInput'' ''contractParameters.s'' ''stringInput''"
  let ?s = "input_of ''stringInput'' ''contractParameters.s.stringInput''
              ''generateStringInput''"
  have a: "map_of dangling_inputs ''contractParameters.s.stringInput.generateStringInput''
             = None"
    by (simp add: dangling_inputs_def)
  have cs: "getChild ?s = ''contractParameters.s.stringInput.generateStringInput''"
    by (simp add: getChild_def input_of_def)
  have cp: "getChild ?p = ''contractParameters.s.stringInput''"
    by (simp add: getChild_def input_of_def)
  have ls: "map_of dangling_inputs ''contractParameters.s.stringInput'' = Some ?s"
    by (simp add: dangling_inputs_def)
  have lp: "map_of dangling_inputs ''contractParameters.s'' = Some ?p"
    by (simp add: dangling_inputs_def)
  have g0: "getDataMissing example_env dangling_inputs (getChild ?s)"
    unfolding cs using a by (rule getDataMissing.absent)
  have g1: "getDataMissing example_env dangling_inputs (getChild ?p)"
    unfolding cp using ls _ _ g0
    by (rule getDataMissing.child)
       (simp_all add: validateInput_def input_of_def Let_def)
  have g2: "getDataMissing example_env dangling_inputs ''contractParameters.s''"
    using lp _ _ g1
    by (rule getDataMissing.child)
       (simp_all add: validateInput_def input_of_def Let_def isPrimaryInputType_def)
  have v0: "isValidMissing example_env dangling_inputs (getChild ?s)"
    unfolding cs using a by (rule isValidMissing.absent)
  have v1: "isValidMissing example_env dangling_inputs (getChild ?p)"
    unfolding cp using ls _ v0
    by (rule isValidMissing.child) (simp add: input_of_def)
  have v2: "isValidMissing example_env dangling_inputs ''contractParameters.s''"
    using lp _ v1
    by (rule isValidMissing.child) (simp add: input_of_def)
  let ?v = "input_of ''valueInput'' ''contractValue.v'' ''''"
  have lv: "map_of orphan_inputs ''contractValue.v'' = Some ?v"
    by (simp add: orphan_inputs_def)
  have w0: "isValidMissing example_env orphan_inputs (name ?v @ ''.accountInput'')"
    by (rule isValidMissing.absent) (simp add: orphan_inputs_def input_of_def)
  have w1: "isValidMissing example_env orphan_inputs ''contractValue.v''"
    using lv _ w0
    by (rule isValidMissing.account) (simp add: input_of_def)
  from C10_absent_id_is_TypeError
         [of example_env dangling_inputs "''contractParameters.s''"]
       C10_absent_id_is_TypeError
         [of example_env orphan_inputs "''contractValue.v''"]
       a g2 v2 w1
  show ?thesis by blast
qed

end
